theory Spec2Isabelle
  imports Main "HOL-Library.Word"
begin

section \<open>Strings\<close>

text \<open>
  Go strings are byte sequences; they are modelled as \<open>string\<close> (a list of 8-bit
  characters). \<open>strings.Contains\<close> is substring search.
\<close>

fun HasPrefix :: "string \<Rightarrow> string \<Rightarrow> bool" where
  "HasPrefix s [] = True"
| "HasPrefix [] (p # ps) = False"
| "HasPrefix (x # xs) (p # ps) = (x = p \<and> HasPrefix xs ps)"

fun Contains :: "string \<Rightarrow> string \<Rightarrow> bool" where
  "Contains [] substr = (substr = [])"
| "Contains (x # xs) substr = (HasPrefix (x # xs) substr \<or> Contains xs substr)"

subsection \<open>UTF-8 and \<open>strings.ToLower\<close>\<close>

text \<open>
  \<open>strings.ToLower\<close> works on runes. \<open>utf8.DecodeRune\<close> reads one rune and its
  width from the front of the bytes: a byte below \<open>0x80\<close> is itself; a lead byte
  announces two to four bytes and the range its second byte must lie in; anything else,
  and a sequence that is cut short or has a wrong continuation byte, is
  \<open>RuneError\<close> of width 1. Runes are natural numbers.
\<close>

definition RuneError :: nat where
  "RuneError = 0xFFFD"

definition lead_size :: "nat \<Rightarrow> nat" where
  "lead_size p0 =
     (if 0xC2 \<le> p0 \<and> p0 \<le> 0xDF then 2
      else if 0xE0 \<le> p0 \<and> p0 \<le> 0xEF then 3
      else if 0xF0 \<le> p0 \<and> p0 \<le> 0xF4 then 4
      else 1)"

definition accept_lo :: "nat \<Rightarrow> nat" where
  "accept_lo p0 = (if p0 = 0xE0 then 0xA0 else if p0 = 0xF0 then 0x90 else 0x80)"

definition accept_hi :: "nat \<Rightarrow> nat" where
  "accept_hi p0 = (if p0 = 0xED then 0x9F else if p0 = 0xF4 then 0x8F else 0xBF)"

fun DecodeRune :: "string \<Rightarrow> nat \<times> nat" where
  "DecodeRune [] = (RuneError, 0)"
| "DecodeRune (c # p) =
     (let p0 = of_char c
      in if p0 < 0x80 then (p0, 1)
         else if lead_size p0 = 1 then (RuneError, 1)
         else if length p + 1 < lead_size p0 then (RuneError, 1)
         else
           (let b1 = of_char (p ! 0)
            in if b1 < accept_lo p0 \<or> accept_hi p0 < b1 then (RuneError, 1)
               else if lead_size p0 \<le> 2 then ((p0 mod 32) * 64 + b1 mod 64, 2)
               else
                 (let b2 = of_char (p ! 1)
                  in if b2 < 0x80 \<or> 0xBF < b2 then (RuneError, 1)
                     else if lead_size p0 \<le> 3
                       then ((p0 mod 16) * 4096 + (b1 mod 64) * 64 + b2 mod 64, 3)
                     else
                       (let b3 = of_char (p ! 2)
                        in if b3 < 0x80 \<or> 0xBF < b3 then (RuneError, 1)
                           else ((p0 mod 8) * 262144 + (b1 mod 64) * 4096
                                 + (b2 mod 64) * 64 + b3 mod 64, 4)))))"

text \<open>
  \<open>utf8.EncodeRune\<close>: one to four bytes; a surrogate or a value beyond
  \<open>0x10FFFF\<close> is written as \<open>RuneError\<close>.
\<close>

definition EncodeRune :: "nat \<Rightarrow> string" where
  "EncodeRune r =
     (if r \<le> 0x7F then [char_of r]
      else if r \<le> 0x7FF then [char_of (0xC0 + r div 64), char_of (0x80 + r mod 64)]
      else if 0x10FFFF < r \<or> (0xD800 \<le> r \<and> r \<le> 0xDFFF)
        then [char_of (0xEF::nat), char_of (0xBF::nat), char_of (0xBD::nat)]
      else if r \<le> 0xFFFF
        then [char_of (0xE0 + r div 4096), char_of (0x80 + (r div 64) mod 64),
              char_of (0x80 + r mod 64)]
      else [char_of (0xF0 + r div 262144), char_of (0x80 + (r div 4096) mod 64),
            char_of (0x80 + (r div 64) mod 64), char_of (0x80 + r mod 64)])"

text \<open>
  \<open>strings.Map\<close> (and \<open>bytes.Map\<close>): every rune of the input, decoded as
  above, is mapped and written back.
\<close>

fun Map_runes :: "(nat \<Rightarrow> nat) \<Rightarrow> string \<Rightarrow> string" where
  "Map_runes mapping [] = []"
| "Map_runes mapping (c # p) =
     (case DecodeRune (c # p) of
        (r, width) \<Rightarrow> EncodeRune (mapping r) @ Map_runes mapping (drop (width - 1) p))"

text \<open>
  \<open>unicode.ToLower\<close> maps an ASCII rune by itself and looks every other rune up
  in the case tables of the package \<open>unicode\<close>. The tables belong to the Go
  release and are a parameter: \<open>LowerCase r\<close> is \<open>unicode.To (unicode.LowerCase, r)\<close>
  for a rune beyond ASCII (for instance \<open>0x130\<close> goes to \<open>0x69\<close> and
  \<open>0x212A\<close> to \<open>0x6B\<close>).
\<close>

definition unicode_ToLower :: "(nat \<Rightarrow> nat) \<Rightarrow> nat \<Rightarrow> nat" where
  "unicode_ToLower LowerCase r =
     (if r \<le> 0x7F then (if 0x41 \<le> r \<and> r \<le> 0x5A then r + 0x20 else r)
      else LowerCase r)"

text \<open>
  \<open>strings.ToLower\<close> and \<open>bytes.ToLower\<close>: a text of ASCII bytes only is
  lower-cased byte by byte; any other text goes through \<open>Map\<close> with
  \<open>unicode.ToLower\<close>.
\<close>

fun isASCII :: "string \<Rightarrow> bool" where
  "isASCII [] = True"
| "isASCII (c # s) = ((of_char c :: nat) < 0x80 \<and> isASCII s)"

definition lower_ascii :: "char \<Rightarrow> char" where
  "lower_ascii c =
     (if (0x41::nat) \<le> of_char c \<and> of_char c \<le> (0x5A::nat)
      then char_of (of_char c + (0x20::nat)) else c)"

definition ToLower :: "(nat \<Rightarrow> nat) \<Rightarrow> string \<Rightarrow> string" where
  "ToLower LowerCase s =
     (if isASCII s then map lower_ascii s
      else Map_runes (unicode_ToLower LowerCase) s)"

text \<open>A byte that lower-casing leaves alone: an ASCII byte that is no capital letter.\<close>

definition plain :: "char \<Rightarrow> bool" where
  "plain c =
     ((of_char c :: nat) < 0x80 \<and> \<not> ((0x41::nat) \<le> of_char c \<and> of_char c \<le> (0x5A::nat)))"

text \<open>Decimal rendering, as \<open>%d\<close> of \<open>fmt.Sprintf\<close> prints an \<open>int\<close>.\<close>

fun decimal :: "nat \<Rightarrow> string" where
  "decimal n =
     (if n < 10 then [char_of (48 + n)]
      else decimal (n div 10) @ [char_of (48 + n mod 10)])"

declare decimal.simps [simp del]

definition fmt_d :: "int \<Rightarrow> string" where
  "fmt_d i = (if i < 0 then CHR ''-'' # decimal (nat (- i)) else decimal (nat i))"

section \<open>Configuration lookups (viper)\<close>

text \<open>
  The source reads its configuration through \<open>viper.GetString\<close> and
  \<open>viper.GetInt\<close>. The configuration is modelled by these two lookups.
\<close>

record viper =
  GetString :: "string \<Rightarrow> string"
  GetInt :: "string \<Rightarrow> int"

section \<open>The logger (package \<open>logger\<close>)\<close>

subsection \<open>zap levels\<close>

datatype Level =
  DebugLevel | InfoLevel | WarnLevel | ErrorLevel | DPanicLevel | PanicLevel | FatalLevel

text \<open>
  Error values of the Go side that the program only passes on or prints: the error of
  \<open>UnmarshalText\<close>, an I/O error, the sentinel errors of the libraries
  (\<open>redis: client is closed\<close>, \<open>http.ErrServerClosed\<close>,
  \<open>context.DeadlineExceeded\<close>) and any other error, by its message.
\<close>

datatype go_err =
    UnrecognizedLevel string
  | IOError string
  | ErrClosed
  | ErrServerClosed
  | DeadlineExceeded
  | OtherErr string

subsection \<open>The rotating file sink (lumberjack)\<close>

text \<open>
  \<open>getLogWriter\<close> only builds a \<open>lumberjack.Logger\<close> value. The library opens
  (or creates) the file at the first write, so a fresh value has no open file.
\<close>

record lumberjack_Logger =
  Filename :: string
  MaxSize :: int
  MaxBackups :: int
  MaxAge :: int
  Compress :: bool
  file_open :: bool

definition getLogWriter :: "string \<Rightarrow> int \<Rightarrow> int \<Rightarrow> int \<Rightarrow> lumberjack_Logger" where
  "getLogWriter filename maxSize maxBackup maxAge =
     \<lparr> Filename = filename, MaxSize = maxSize, MaxBackups = maxBackup,
       MaxAge = maxAge, Compress = False, file_open = False \<rparr>"

text \<open>
  A file system answers an attempt to open a path with an error or with success.
  \<open>lumberjack_Write\<close> is the library's write as far as opening goes: the first
  write opens the destination and returns the I/O error if that fails.
\<close>

type_synonym filesystem = "string \<Rightarrow> go_err option"

definition lumberjack_Write :: "filesystem \<Rightarrow> lumberjack_Logger \<Rightarrow> go_err + lumberjack_Logger" where
  "lumberjack_Write fs l =
     (if file_open l then Inr l
      else (case fs (Filename l) of
              Some e \<Rightarrow> Inl e
            | None \<Rightarrow> Inr (l\<lparr>file_open := True\<rparr>)))"

subsection \<open>Encoder\<close>

datatype TimeEncoder = EpochTimeEncoder | ISO8601TimeEncoder
datatype LevelEncoder = LowercaseLevelEncoder | CapitalLevelEncoder
datatype DurationEncoder = SecondsDurationEncoder
datatype CallerEncoder = ShortCallerEncoder

record EncoderConfig =
  TimeKey :: string
  EncodeTime :: TimeEncoder
  EncodeLevel :: LevelEncoder
  EncodeDuration :: DurationEncoder
  EncodeCaller :: CallerEncoder

definition NewProductionEncoderConfig :: EncoderConfig where
  "NewProductionEncoderConfig =
     \<lparr> TimeKey = ''ts'', EncodeTime = EpochTimeEncoder, EncodeLevel = LowercaseLevelEncoder,
       EncodeDuration = SecondsDurationEncoder, EncodeCaller = ShortCallerEncoder \<rparr>"

definition getEncoder :: EncoderConfig where
  "getEncoder =
     (let encoderConfig = NewProductionEncoderConfig;
          encoderConfig = encoderConfig\<lparr>EncodeTime := ISO8601TimeEncoder\<rparr>;
          encoderConfig = encoderConfig\<lparr>TimeKey := ''time''\<rparr>;
          encoderConfig = encoderConfig\<lparr>EncodeLevel := CapitalLevelEncoder\<rparr>;
          encoderConfig = encoderConfig\<lparr>EncodeDuration := SecondsDurationEncoder\<rparr>;
          encoderConfig = encoderConfig\<lparr>EncodeCaller := ShortCallerEncoder\<rparr>
      in encoderConfig)"

subsection \<open>The process-wide logger and \<open>Init\<close>\<close>

text \<open>
  The global logger of zap is a no-op logger until \<open>zap.ReplaceGlobals\<close> installs
  another one. A logger built by \<open>zap.New (zapcore.NewCore enc ws l) (zap.AddCaller ())\<close>
  is the record of its encoder, sink, minimum level and caller annotation.
  \<open>Init\<close> takes the global logger and returns its error together with the global
  logger after the call: the one \<open>zap.ReplaceGlobals\<close> has installed, or the old
  one when \<open>Init\<close> has returned before that line.

  \<open>(*zapcore.Level).UnmarshalText\<close> belongs to the zap release, which the source
  does not pin; it is the parameter \<open>UnmarshalText\<close>, from the text to the error
  or the level.
\<close>

datatype zap_Logger =
    NopLogger
  | Logger (enc: EncoderConfig) (sink: lumberjack_Logger) (min_level: Level) (add_caller: bool)

definition logger_Init ::
  "(string \<Rightarrow> go_err + Level) \<Rightarrow> viper \<Rightarrow> zap_Logger \<Rightarrow> go_err option \<times> zap_Logger" where
  "logger_Init UnmarshalText v globalL =
     (let writeSyncer = getLogWriter (GetString v ''log.filename'') (GetInt v ''log.max_size'')
                          (GetInt v ''log.max_backups'') (GetInt v ''log.max_age'');
          encoder = getEncoder
      in case UnmarshalText (GetString v ''log.level'') of
           Inl err \<Rightarrow> (Some err, globalL)
         | Inr l \<Rightarrow>
             (let logger = Logger encoder writeSyncer l True
              in (None, logger)))"

section \<open>Values that a handler can panic with\<close>

text \<open>
  \<open>recover ()\<close> returns a value of type \<open>any\<close>. The recovery middleware
  distinguishes a \<open>*net.OpError\<close> whose \<open>Err\<close> is a \<open>*os.SyscallError\<close>
  from everything else, and later asserts the value to the interface \<open>error\<close>.
  The model keeps exactly that much of the value: pointers may be nil, the field
  \<open>Err\<close> of either struct is an interface value that may be nil, an error of
  another type is known by its message, and a value of a type without an
  \<open>Error\<close> method (a string, an int) is \<open>NonError\<close>.
\<close>

datatype os_SyscallError = SyscallError (Syscall: string) (SyscallErr: "string option")

datatype error_value =
    SyscallErrorPtr "os_SyscallError option"
  | OtherError string

datatype net_OpError = OpError (Op: string) (Net: string) (OpErr: "error_value option")

datatype go_value =
    OpErrorPtr "net_OpError option"
  | ErrorValue error_value
  | NonError string

definition nil_dereference :: go_value where
  "nil_dereference =
     ErrorValue (OtherError ''runtime error: invalid memory address or nil pointer dereference'')"

definition interface_conversion :: go_value where
  "interface_conversion =
     ErrorValue (OtherError ''interface conversion: interface {} is not error: missing method Error'')"

text \<open>
  \<open>(*os.SyscallError).Error\<close> is \<open>e.Syscall + ": " + e.Err.Error ()\<close>; it
  dereferences its receiver and calls a method of \<open>e.Err\<close>, so it panics when
  either is nil.
\<close>

definition SyscallError_Error :: "os_SyscallError option \<Rightarrow> go_value + string" where
  "SyscallError_Error se =
     (case se of
        None \<Rightarrow> Inl nil_dereference
      | Some e \<Rightarrow>
          (case SyscallErr e of
             None \<Rightarrow> Inl nil_dereference
           | Some m \<Rightarrow> Inr (Syscall e @ '': '' @ m)))"

text \<open>The type assertion \<open>err.(error)\<close>: it panics unless the value has an \<open>Error\<close> method.\<close>

definition assert_error :: "go_value \<Rightarrow> go_value + go_value" where
  "assert_error err =
     (case err of
        NonError s \<Rightarrow> Inl interface_conversion
      | _ \<Rightarrow> Inr err)"

section \<open>Log records\<close>

datatype Field =
    zap_Int int
  | zap_String string
  | zap_Any go_value
  | zap_Duration int
  | zap_Error go_err

record Entry =
  Lvl :: Level
  Message :: string
  Fields :: "(string \<times> Field) list"

section \<open>The request context (gin)\<close>

record http_Request =
  Method :: string
  URL_Path :: string
  URL_RawQuery :: string
  UserAgent :: string

record gin_Error =
  Err :: go_value
  ErrType :: "64 word"
  Meta :: "string option"

text \<open>
  Of the response writer the context keeps the status code and whether the header has
  been written; \<open>aborted\<close> says that the handler index is at the abort index.
\<close>

record gin_Context =
  Request :: http_Request
  ClientIP :: string
  status :: int
  written :: bool
  aborted :: bool
  Errors :: "gin_Error list"

definition ErrorTypePrivate :: "64 word" where
  "ErrorTypePrivate = 1"

definition ErrorTypeAny :: "64 word" where
  "ErrorTypeAny = - 1"

definition StatusInternalServerError :: int where
  "StatusInternalServerError = 500"

text \<open>
  The gin library, as far as the middleware calls it. \<open>WriteHeader\<close> keeps the status
  of a response whose header is already written; \<open>Context.Error\<close> appends the error
  with the private type (the errors modelled here wrap no \<open>*gin.Error\<close>);
  \<open>errorMsgs.String\<close> numbers the errors from 1, one line each, and is empty for no
  error. The text of an error is a parameter \<open>etext\<close>.
\<close>

definition WriteHeader :: "int \<Rightarrow> gin_Context \<Rightarrow> gin_Context" where
  "WriteHeader code c =
     (if code > 0 \<and> status c \<noteq> code
      then (if written c then c else c\<lparr>status := code\<rparr>)
      else c)"

definition WriteHeaderNow :: "gin_Context \<Rightarrow> gin_Context" where
  "WriteHeaderNow c = (if \<not> written c then c\<lparr>written := True\<rparr> else c)"

definition Abort :: "gin_Context \<Rightarrow> gin_Context" where
  "Abort c = c\<lparr>aborted := True\<rparr>"

definition AbortWithStatus :: "int \<Rightarrow> gin_Context \<Rightarrow> gin_Context" where
  "AbortWithStatus code c = Abort (WriteHeaderNow (WriteHeader code c))"

definition Context_Error :: "go_value \<Rightarrow> gin_Context \<Rightarrow> gin_Context" where
  "Context_Error err c =
     c\<lparr>Errors := Errors c @ [\<lparr> Err = err, ErrType = ErrorTypePrivate, Meta = None \<rparr>]\<rparr>"

definition IsType :: "gin_Error \<Rightarrow> 64 word \<Rightarrow> bool" where
  "IsType msg flags = (and (ErrType msg) flags > 0)"

definition ByType :: "64 word \<Rightarrow> gin_Error list \<Rightarrow> gin_Error list" where
  "ByType typ a =
     (if a = [] then []
      else if typ = ErrorTypeAny then a
      else filter (\<lambda>msg. IsType msg typ) a)"

definition fmt_02d :: "nat \<Rightarrow> string" where
  "fmt_02d n = (if n < 10 then CHR ''0'' # decimal n else decimal n)"

fun String_from :: "(go_value \<Rightarrow> string) \<Rightarrow> nat \<Rightarrow> gin_Error list \<Rightarrow> string" where
  "String_from etext i [] = []"
| "String_from etext i (msg # a) =
     (''Error #'' @ fmt_02d (i + 1) @ '': '' @ etext (Err msg) @ [CHR 0x0A])
     @ (case Meta msg of None \<Rightarrow> [] | Some m \<Rightarrow> ''     Meta: '' @ m @ [CHR 0x0A])
     @ String_from etext (i + 1) a"

definition errorMsgs_String :: "(go_value \<Rightarrow> string) \<Rightarrow> gin_Error list \<Rightarrow> string" where
  "errorMsgs_String etext a = (if a = [] then [] else String_from etext 0 a)"

section \<open>The middleware (package \<open>logger\<close>)\<close>

text \<open>
  A handler runs on the request context and either returns or panics with a value; it
  leaves the context as it has mutated it, and the records it has handed to the global
  logger, in order. \<open>c.Next ()\<close> in a middleware runs the rest of the chain, which
  is the handler \<open>next\<close> here.

  What the Go runtime and \<open>net/http/httputil\<close> supply is a parameter: the dump of
  a request (\<open>DumpRequest req body\<close>, the empty text when the dump fails, as the source
  drops the error), the stack trace \<open>debug.Stack ()\<close>, the text of an error, and
  the lower-case table of the package \<open>unicode\<close>.
\<close>

type_synonym handler = "gin_Context \<Rightarrow> go_value option \<times> gin_Context \<times> Entry list"

record runtime =
  DumpRequest :: "http_Request \<Rightarrow> bool \<Rightarrow> string"
  debug_Stack :: string
  error_text :: "go_value \<Rightarrow> string"
  LowerCase :: "nat \<Rightarrow> nat"

text \<open>
  Lines 129--136 of \<open>GinRecovery\<close>: the classification of the recovered value. It
  is \<open>Inl\<close> of a new panic where the source dereferences a nil pointer.
\<close>

definition brokenPipe_of :: "(nat \<Rightarrow> nat) \<Rightarrow> go_value \<Rightarrow> go_value + bool" where
  "brokenPipe_of tbl err =
     (case err of
        OpErrorPtr None \<Rightarrow> Inl nil_dereference
      | OpErrorPtr (Some ne) \<Rightarrow>
          (case OpErr ne of
             Some (SyscallErrorPtr se) \<Rightarrow>
               (case SyscallError_Error se of
                  Inl p \<Rightarrow> Inl p
                | Inr m \<Rightarrow>
                    Inr (Contains (ToLower tbl m) ''broken pipe''
                         \<or> Contains (ToLower tbl m) ''connection reset by peer''))
           | _ \<Rightarrow> Inr False)
      | _ \<Rightarrow> Inr False)"

definition GinRecovery :: "runtime \<Rightarrow> bool \<Rightarrow> handler \<Rightarrow> handler" where
  "GinRecovery rt stack next c =
     (case next c of
        (None, c1, logs) \<Rightarrow> (None, c1, logs)
      | (Some err, c1, logs) \<Rightarrow>
          (case brokenPipe_of (LowerCase rt) err of
             Inl p \<Rightarrow> (Some p, c1, logs)
           | Inr brokenPipe \<Rightarrow>
               (let httpRequest = DumpRequest rt (Request c1) False
                in if brokenPipe then
                     (let logs1 = logs @
                            [\<lparr> Lvl = ErrorLevel, Message = URL_Path (Request c1),
                               Fields = [(''error'', zap_Any err),
                                         (''request'', zap_String httpRequest)] \<rparr>]
                      in case assert_error err of
                           Inl p \<Rightarrow> (Some p, c1, logs1)
                         | Inr e \<Rightarrow> (None, Abort (Context_Error e c1), logs1))
                   else
                     (let logs1 =
                            (if stack then
                               logs @
                               [\<lparr> Lvl = ErrorLevel, Message = ''[Recovery from panic]'',
                                  Fields = [(''error'', zap_Any err),
                                            (''request'', zap_String httpRequest),
                                            (''stack'', zap_String (debug_Stack rt))] \<rparr>]
                             else
                               logs @
                               [\<lparr> Lvl = ErrorLevel, Message = ''[Recovery from panic]'',
                                  Fields = [(''error'', zap_Any err),
                                            (''request'', zap_String httpRequest)] \<rparr>])
                      in (None, AbortWithStatus StatusInternalServerError c1, logs1)))))"

text \<open>
  \<open>GinLogger\<close> reads the clock before and after \<open>c.Next ()\<close>; the two readings
  (in nanoseconds) are the parameters \<open>start\<close> and \<open>finish\<close>. The source has no
  \<open>defer\<close> here: when the rest of the chain panics, the panic passes through and
  nothing is logged.
\<close>

definition GinLogger :: "runtime \<Rightarrow> int \<Rightarrow> int \<Rightarrow> handler \<Rightarrow> handler" where
  "GinLogger rt start finish next c =
     (let path = URL_Path (Request c);
          query = URL_RawQuery (Request c)
      in case next c of
           (Some p, c1, logs) \<Rightarrow> (Some p, c1, logs)
         | (None, c1, logs) \<Rightarrow>
             (let cost = finish - start
              in (None, c1, logs @
                   [\<lparr> Lvl = InfoLevel, Message = path,
                      Fields = [(''status'', zap_Int (status c1)),
                                (''method'', zap_String (Method (Request c1))),
                                (''path'', zap_String path),
                                (''query'', zap_String query),
                                (''ip'', zap_String (ClientIP c1)),
                                (''user-agent'', zap_String (UserAgent (Request c1))),
                                (''errors'', zap_String
                                   (errorMsgs_String (error_text rt)
                                      (ByType ErrorTypePrivate (Errors c1)))),
                                (''cost'', zap_Duration cost)] \<rparr>])))"

section \<open>The resource clients (packages \<open>mysql\<close> and \<open>redis\<close>)\<close>

text \<open>
  A \<open>*sqlx.DB\<close> and a \<open>*redis.Client\<close> are pointers to a connection pool. Of
  the pool the model keeps whether it is closed and how many times its connections
  have been released. \<open>(*sql.DB).Close\<close> returns nil at once on a closed pool;
  the pool of go-redis returns \<open>ErrClosed\<close> on a closed pool; neither releases the
  connections again.
\<close>

record sql_DB =
  db_closed :: bool
  db_released :: nat
  MaxOpenConns :: int
  MaxIdleConns :: int

record redis_Options =
  Addr :: string
  Password :: string
  DB :: int
  PoolSize :: int

record redis_Client =
  options :: redis_Options
  pool_closed :: bool
  pool_released :: nat

definition sql_DB_Close :: "sql_DB \<Rightarrow> go_err option \<times> sql_DB" where
  "sql_DB_Close d =
     (if db_closed d then (None, d)
      else (None, d\<lparr>db_closed := True, db_released := db_released d + 1\<rparr>))"

definition redis_Client_Close :: "redis_Client \<Rightarrow> go_err option \<times> redis_Client" where
  "redis_Client_Close r =
     (if pool_closed r then (Some ErrClosed, r)
      else (None, r\<lparr>pool_closed := True, pool_released := pool_released r + 1\<rparr>))"

definition new_Client :: "redis_Options \<Rightarrow> redis_Client" where
  "new_Client opt = \<lparr> options = opt, pool_closed = False, pool_released = 0 \<rparr>"

section \<open>The process\<close>

text \<open>
  What the process does to the outside is a list of events, in order: what it prints,
  the records it hands to the global logger, and its calls of the libraries.
\<close>

datatype event =
    Printf string go_err
  | ZapLog Entry
  | ZapSync
  | LogFatalf string go_err
  | mysql_Close_called
  | redis_Close_called
  | ListenAndServe string
  | signal_Notify
  | srv_Shutdown_called int
  | cancel_called

text \<open>
  The package-level variables: the global logger of zap, \<open>mysql.db\<close> and
  \<open>redis.rdb\<close> (nil until \<open>Init\<close> assigns them), whether viper watches the
  configuration file, and the events so far.
\<close>

record process =
  zapL :: zap_Logger
  db :: "sql_DB option"
  rdb :: "redis_Client option"
  watching :: bool
  out :: "event list"

text \<open>
  The environment decides what the outside answers: the configuration, whether the
  configuration file can be read, what zap's \<open>UnmarshalText\<close> makes of a level
  text, whether the database answers, whether \<open>redis.NewClient\<close> returns or panics
  on the options (\<open>Some\<close> of the panic value; the library panics on a negative
  pool size, for instance), whether the cache answers the ping, what
  \<open>ListenAndServe\<close> returns while \<open>main\<close> waits for a signal (if it returns
  then), whether SIGINT or SIGTERM ever arrives, and what \<open>(*http.Server).Shutdown\<close>
  returns for a context with the given timeout in nanoseconds: the error of the context
  when it expires before the connections are idle, otherwise the error of closing the
  listener.
\<close>

record env =
  config :: viper
  ReadInConfig :: "go_err option"
  UnmarshalText :: "string \<Rightarrow> go_err + Level"
  sqlx_Connect :: "string \<Rightarrow> string \<Rightarrow> go_err option"
  redis_NewClient :: "redis_Options \<Rightarrow> go_value option"
  redis_Ping :: "redis_Options \<Rightarrow> go_err option"
  listen_error :: "go_err option"
  signal :: bool
  srv_Shutdown :: "int \<Rightarrow> go_err option"

definition emit :: "event \<Rightarrow> process \<Rightarrow> process" where
  "emit ev s = s\<lparr>out := out s @ [ev]\<rparr>"

definition zap_log :: "Level \<Rightarrow> string \<Rightarrow> (string \<times> Field) list \<Rightarrow> process \<Rightarrow> process" where
  "zap_log l m fs s = emit (ZapLog \<lparr> Lvl = l, Message = m, Fields = fs \<rparr>) s"

definition nl :: string where
  "nl = [CHR 0x0A]"

subsection \<open>\<open>settings.Init\<close>\<close>

text \<open>
  The calls that only configure viper (the default, the file name and type, the search
  path, the change handler) leave no event; reading the file is answered by the
  environment.
\<close>

definition settings_Init :: "env \<Rightarrow> process \<Rightarrow> go_err option \<times> process" where
  "settings_Init e s =
     (case ReadInConfig e of
        Some err \<Rightarrow> (Some err, emit (Printf (''viper.ReadInConfig failed, error: %v'' @ nl) err) s)
      | None \<Rightarrow> (None, s\<lparr>watching := True\<rparr>))"

subsection \<open>\<open>mysql.Init\<close> and \<open>mysql.Close\<close>\<close>

definition mysql_dsn :: "viper \<Rightarrow> string" where
  "mysql_dsn v =
     GetString v ''mysql.user'' @ '':'' @ GetString v ''mysql.password'' @ ''@tcp(''
     @ GetString v ''mysql.host'' @ '':'' @ fmt_d (GetInt v ''mysql.port'') @ '')/''
     @ GetString v ''mysql.dbname'' @ ''?charset=utf8mb4&parseTime=true''"

text \<open>
  \<open>sqlx.Connect\<close> returns a nil pointer together with an error, and the source
  assigns both results, so a failed \<open>Init\<close> leaves \<open>db\<close> nil.
\<close>

definition mysql_Init :: "env \<Rightarrow> process \<Rightarrow> go_err option \<times> process" where
  "mysql_Init e s =
     (let dsn = mysql_dsn (config e)
      in case sqlx_Connect e ''mysql'' dsn of
           Some err \<Rightarrow>
             (Some err,
              zap_log ErrorLevel ''connect DB failed'' [(''error'', zap_Error err)] (s\<lparr>db := None\<rparr>))
         | None \<Rightarrow>
             (None,
              s\<lparr>db := Some \<lparr> db_closed = False, db_released = 0,
                             MaxOpenConns = GetInt (config e) ''mysql.max_open_conns'',
                             MaxIdleConns = GetInt (config e) ''mysql.max_idle_conns'' \<rparr>\<rparr>))"

text \<open>
  \<open>Close\<close> calls a method through the package pointer without a nil check: on a nil
  pointer that is a panic of the runtime. The error of the library's \<open>Close\<close> is
  dropped.
\<close>

definition mysql_Close :: "process \<Rightarrow> go_value option \<times> process" where
  "mysql_Close s =
     (let s1 = emit mysql_Close_called s
      in case db s1 of
           None \<Rightarrow> (Some nil_dereference, s1)
         | Some d \<Rightarrow> (None, s1\<lparr>db := Some (snd (sql_DB_Close d))\<rparr>))"

subsection \<open>\<open>redis.Init\<close> and \<open>redis.Close\<close>\<close>

definition redis_options :: "viper \<Rightarrow> redis_Options" where
  "redis_options v =
     \<lparr> Addr = GetString v ''redis.host'' @ '':'' @ fmt_d (GetInt v ''redis.port''),
       Password = GetString v ''redis.password'',
       DB = GetInt v ''redis.db'',
       PoolSize = GetInt v ''redis.pool_size'' \<rparr>"

text \<open>
  \<open>Init\<close> assigns \<open>rdb\<close> when \<open>redis.NewClient\<close> has returned, and then
  pings; a panic of \<open>redis.NewClient\<close> leaves \<open>rdb\<close> as it was and passes
  through \<open>Init\<close> (\<open>Inl\<close>).
\<close>

definition redis_Init :: "env \<Rightarrow> process \<Rightarrow> (go_value + go_err option) \<times> process" where
  "redis_Init e s =
     (case redis_NewClient e (redis_options (config e)) of
        Some p \<Rightarrow> (Inl p, s)
      | None \<Rightarrow>
          (let s1 = s\<lparr>rdb := Some (new_Client (redis_options (config e)))\<rparr>;
               err = redis_Ping e (redis_options (config e))
           in (Inr err, s1)))"

definition redis_Close :: "process \<Rightarrow> go_value option \<times> process" where
  "redis_Close s =
     (let s1 = emit redis_Close_called s
      in case rdb s1 of
           None \<Rightarrow> (Some nil_dereference, s1)
         | Some r \<Rightarrow> (None, s1\<lparr>rdb := Some (snd (redis_Client_Close r))\<rparr>))"

subsection \<open>\<open>main\<close>\<close>

text \<open>
  Go runs the deferred calls of a function when it returns, the last deferred first.
  A deferred call that panics does not stop the remaining ones; the function then ends
  panicking. \<open>os.Exit\<close> ends the process at once and runs no deferred call.
\<close>

datatype deferred = defer_Sync | defer_mysql_Close | defer_redis_Close | defer_cancel

datatype ending =
    Returned
  | Exited int
  | Panicked go_value
  | Blocked

fun run_deferred :: "deferred \<Rightarrow> process \<Rightarrow> go_value option \<times> process" where
  "run_deferred defer_Sync s = (None, emit ZapSync s)"
| "run_deferred defer_mysql_Close s = mysql_Close s"
| "run_deferred defer_redis_Close s = redis_Close s"
| "run_deferred defer_cancel s = (None, emit cancel_called s)"

fun run_defers :: "deferred list \<Rightarrow> go_value option \<Rightarrow> process \<Rightarrow> go_value option \<times> process" where
  "run_defers [] p s = (p, s)"
| "run_defers (d # ds) p s =
     (case run_deferred d s of
        (None, s1) \<Rightarrow> run_defers ds p s1
      | (Some q, s1) \<Rightarrow> run_defers ds (Some q) s1)"

definition return_main :: "deferred list \<Rightarrow> process \<Rightarrow> ending \<times> process" where
  "return_main defers s =
     (case run_defers defers None s of
        (None, s1) \<Rightarrow> (Returned, s1)
      | (Some p, s1) \<Rightarrow> (Panicked p, s1))"

definition panic_main :: "deferred list \<Rightarrow> go_value \<Rightarrow> process \<Rightarrow> ending \<times> process" where
  "panic_main defers p s =
     (case run_defers defers (Some p) s of
        (None, s1) \<Rightarrow> (Panicked p, s1)
      | (Some q, s1) \<Rightarrow> (Panicked q, s1))"

definition os_Exit :: "int \<Rightarrow> process \<Rightarrow> ending \<times> process" where
  "os_Exit code s = (Exited code, s)"

definition Second :: int where
  "Second = 1000000000"

text \<open>
  \<open>main\<close>, line by line. The list \<open>defers\<close> is the stack of deferred calls, the
  last deferred at the head. A panic out of \<open>redis.Init\<close> unwinds \<open>main\<close>
  through the calls deferred so far. The goroutine of the listener runs beside
  \<open>main\<close>: if \<open>ListenAndServe\<close> returns an error other than
  \<open>ErrServerClosed\<close> the goroutine calls \<open>log.Fatalf\<close>, which prints and exits
  with status 1; the model lets that happen while \<open>main\<close> waits for a signal.
  Without a signal \<open>main\<close> stays blocked. \<open>(*zap.Logger).Fatal\<close> logs the
  record and then calls \<open>os.Exit 1\<close>. \<open>routes.Setup\<close> only builds the handler.
\<close>

definition main :: "env \<Rightarrow> process \<Rightarrow> ending \<times> process" where
  "main e s0 =
     (case settings_Init e s0 of
        (Some err, s1) \<Rightarrow>
          return_main [] (emit (Printf (''init settings failed, error: %v'' @ nl) err) s1)
      | (None, s1) \<Rightarrow>
     (case logger_Init (UnmarshalText e) (config e) (zapL s1) of
        (Some err, g) \<Rightarrow>
          return_main [] (emit (Printf (''init logger failed, error: %v'' @ nl) err) (s1\<lparr>zapL := g\<rparr>))
      | (None, g) \<Rightarrow>
     (let s2 = s1\<lparr>zapL := g\<rparr>;
          defers = [defer_Sync];
          s3 = zap_log DebugLevel ''logger initialized successfully'' [] s2
      in case mysql_Init e s3 of
        (Some err, s4) \<Rightarrow>
          return_main defers (emit (Printf (''init mysql failed, error: %v'' @ nl) err) s4)
      | (None, s4) \<Rightarrow>
     (let defers = defer_mysql_Close # defers
      in case redis_Init e s4 of
        (Inl p, s5) \<Rightarrow> panic_main defers p s5
      | (Inr (Some err), s5) \<Rightarrow>
          return_main defers (emit (Printf (''init redis failed, error: %v'' @ nl) err) s5)
      | (Inr None, s5) \<Rightarrow>
     (let defers = defer_redis_Close # defers;
          addr = '':'' @ fmt_d (GetInt (config e) ''app.port'');
          s6 = emit (ListenAndServe addr) s5;
          s7 = emit signal_Notify s6
      in if listen_error e \<noteq> None \<and> listen_error e \<noteq> Some ErrServerClosed then
           os_Exit 1 (emit (LogFatalf (''listen: %s'' @ nl) (the (listen_error e))) s7)
         else if \<not> signal e then (Blocked, s7)
         else
           (let s8 = zap_log InfoLevel ''Shutdown Server ...'' [] s7;
                timeout = 5 * Second;
                defers = defer_cancel # defers;
                s9 = emit (srv_Shutdown_called timeout) s8
            in case srv_Shutdown e timeout of
                 Some err \<Rightarrow>
                   os_Exit 1 (zap_log FatalLevel ''Server Shutdown'' [(''error'', zap_Error err)] s9)
               | None \<Rightarrow>
                   return_main defers (zap_log InfoLevel ''Server exiting'' [] s9)))))))"

section \<open>Reading the events\<close>

text \<open>The release calls among the events: the two \<open>Close\<close> calls and the flush of the logger.\<close>

fun is_release :: "event \<Rightarrow> bool" where
  "is_release ZapSync = True"
| "is_release mysql_Close_called = True"
| "is_release redis_Close_called = True"
| "is_release ev = False"

section \<open>Concrete inputs\<close>

text \<open>
  Two entries of the lower-case table of \<open>unicode\<close>: the dotted capital I and the
  Kelvin sign. The concrete inputs below use no other rune beyond ASCII.
\<close>

definition sample_LowerCase :: "nat \<Rightarrow> nat" where
  "sample_LowerCase r = (if r = 0x130 then 0x69 else if r = 0x212A then 0x6B else r)"

text \<open>
  \<open>(*zapcore.Level).UnmarshalText\<close> as zap v1.27.0 has it: the text is tried as
  it is, then lower-cased with \<open>bytes.ToLower\<close>; the empty text is the info
  level. It is the parser of the concrete environments below.
\<close>

definition unmarshalText :: "string \<Rightarrow> Level option" where
  "unmarshalText text =
     (if text = ''debug'' \<or> text = ''DEBUG'' then Some DebugLevel
      else if text = ''info'' \<or> text = ''INFO'' \<or> text = '''' then Some InfoLevel
      else if text = ''warn'' \<or> text = ''WARN'' then Some WarnLevel
      else if text = ''error'' \<or> text = ''ERROR'' then Some ErrorLevel
      else if text = ''dpanic'' \<or> text = ''DPANIC'' then Some DPanicLevel
      else if text = ''panic'' \<or> text = ''PANIC'' then Some PanicLevel
      else if text = ''fatal'' \<or> text = ''FATAL'' then Some FatalLevel
      else None)"

definition zap_UnmarshalText :: "(nat \<Rightarrow> nat) \<Rightarrow> string \<Rightarrow> go_err + Level" where
  "zap_UnmarshalText tbl text =
     (case unmarshalText text of
        Some l \<Rightarrow> Inr l
      | None \<Rightarrow>
          (case unmarshalText (ToLower tbl text) of
             Some l \<Rightarrow> Inr l
           | None \<Rightarrow> Inl (UnrecognizedLevel text)))"

text \<open>A configuration as the scaffold's \<open>config.yaml\<close> would give it, and variants of it.\<close>

definition cfg_sample :: viper where
  "cfg_sample =
     \<lparr> GetString = (\<lambda>k. if k = ''log.level'' then ''debug''
                         else if k = ''log.filename'' then ''web_app.log''
                         else if k = ''mysql.user'' then ''root''
                         else if k = ''mysql.password'' then ''secret''
                         else if k = ''mysql.host'' then ''127.0.0.1''
                         else if k = ''mysql.dbname'' then ''web''
                         else if k = ''redis.host'' then ''127.0.0.1''
                         else ''''),
       GetInt = (\<lambda>k. if k = ''app.port'' then 8080
                      else if k = ''mysql.port'' then 3306
                      else if k = ''redis.port'' then 6379
                      else if k = ''log.max_size'' then 200
                      else if k = ''log.max_age'' then 30
                      else if k = ''log.max_backups'' then 7
                      else if k = ''mysql.max_open_conns'' then 200
                      else if k = ''mysql.max_idle_conns'' then 50
                      else if k = ''redis.pool_size'' then 100
                      else 0) \<rparr>"

definition cfg_bad_level :: viper where
  "cfg_bad_level = cfg_sample\<lparr>GetString := (GetString cfg_sample)(''log.level'' := ''verbose'')\<rparr>"

definition cfg_unwritable :: viper where
  "cfg_unwritable =
     cfg_sample\<lparr>GetString := (GetString cfg_sample)(''log.filename'' := ''/proc/web_app.log'')\<rparr>"

definition fs_denied :: filesystem where
  "fs_denied path = Some (IOError ''permission denied'')"

definition sample_request :: http_Request where
  "sample_request =
     \<lparr> Method = ''GET'', URL_Path = ''/ping'', URL_RawQuery = ''a=1'', UserAgent = ''curl/8.0'' \<rparr>"

definition sample_ctx :: gin_Context where
  "sample_ctx =
     \<lparr> Request = sample_request, ClientIP = ''10.0.0.7'', status = 200, written = False,
       aborted = False, Errors = [] \<rparr>"

definition sample_error_text :: "go_value \<Rightarrow> string" where
  "sample_error_text v =
     (case v of
        ErrorValue (OtherError m) \<Rightarrow> m
      | NonError m \<Rightarrow> m
      | _ \<Rightarrow> ''write tcp: write: broken pipe'')"

definition sample_rt :: runtime where
  "sample_rt =
     \<lparr> DumpRequest = (\<lambda>r body. Method r @ '' '' @ URL_Path r @ '' HTTP/1.1''),
       debug_Stack = ''goroutine 7 [running]'',
       error_text = sample_error_text,
       LowerCase = sample_LowerCase \<rparr>"

definition broken_pipe_err :: go_value where
  "broken_pipe_err =
     OpErrorPtr (Some (OpError ''write'' ''tcp''
       (Some (SyscallErrorPtr (Some (SyscallError ''write'' (Some ''broken pipe'')))))))"

text \<open>The same error with the message in capitals and a dotted capital I (bytes C4 B0).\<close>

definition dotted_pipe_err :: go_value where
  "dotted_pipe_err =
     OpErrorPtr (Some (OpError ''write'' ''tcp''
       (Some (SyscallErrorPtr (Some (SyscallError ''WRITE''
          (Some (''BROKEN P'' @ [CHR 0xC4, CHR 0xB0] @ ''PE''))))))))"

text \<open>
  Handlers: one panics with the broken pipe, one with a string, one answers, one
  writes status 201 and then panics, and one returns having recorded a public error
  and two private ones.
\<close>

definition h_broken_pipe :: handler where
  "h_broken_pipe c = (Some broken_pipe_err, c, [])"

definition h_boom :: handler where
  "h_boom c = (Some (NonError ''boom''), c, [])"

definition h_ok :: handler where
  "h_ok c = (None, c\<lparr>written := True\<rparr>, [])"

definition h_created_boom :: handler where
  "h_created_boom c = (Some (NonError ''boom''), c\<lparr>status := 201, written := True\<rparr>, [])"

definition three_errors :: "gin_Error list" where
  "three_errors =
     [\<lparr> Err = ErrorValue (OtherError ''bad json''), ErrType = 2, Meta = None \<rparr>,
      \<lparr> Err = ErrorValue (OtherError ''no rows''), ErrType = 1, Meta = None \<rparr>,
      \<lparr> Err = broken_pipe_err, ErrType = 1, Meta = Some ''retry'' \<rparr>]"

definition h_errors :: handler where
  "h_errors c = (None, c\<lparr>status := 404, written := True, Errors := three_errors\<rparr>, [])"

text \<open>
  A fresh process, a process whose two clients are connected, and environments: one in
  which everything answers, and its variants in which one thing fails.
\<close>

definition proc0 :: process where
  "proc0 = \<lparr> zapL = NopLogger, db = None, rdb = None, watching = False, out = [] \<rparr>"

definition proc_connected :: process where
  "proc_connected =
     proc0\<lparr>db := Some \<lparr> db_closed = False, db_released = 0, MaxOpenConns = 200,
                          MaxIdleConns = 50 \<rparr>,
           rdb := Some (new_Client (redis_options cfg_sample))\<rparr>"

definition env_ok :: env where
  "env_ok =
     \<lparr> config = cfg_sample, ReadInConfig = None,
       UnmarshalText = zap_UnmarshalText sample_LowerCase,
       sqlx_Connect = (\<lambda>driver dsn. None),
       redis_NewClient = (\<lambda>opt. if PoolSize opt < 0
                                  then Some (ErrorValue (OtherError ''makechan: size out of range''))
                                  else None),
       redis_Ping = (\<lambda>opt. None),
       listen_error = None, signal = True, srv_Shutdown = (\<lambda>timeout. None) \<rparr>"

definition env_slow_drain :: env where
  "env_slow_drain = env_ok\<lparr>srv_Shutdown := (\<lambda>timeout. Some DeadlineExceeded)\<rparr>"

definition env_no_config :: env where
  "env_no_config =
     env_ok\<lparr>ReadInConfig := Some (OtherErr ''open ./config.yaml: no such file or directory'')\<rparr>"

definition env_bad_level :: env where
  "env_bad_level = env_ok\<lparr>config := cfg_bad_level\<rparr>"

definition env_mysql_down :: env where
  "env_mysql_down =
     env_ok\<lparr>sqlx_Connect := (\<lambda>driver dsn. Some (OtherErr ''connection refused''))\<rparr>"

definition env_redis_down :: env where
  "env_redis_down = env_ok\<lparr>redis_Ping := (\<lambda>opt. Some (OtherErr ''connection refused''))\<rparr>"

definition env_bad_pool :: env where
  "env_bad_pool =
     env_ok\<lparr>config := cfg_sample\<lparr>GetInt := (GetInt cfg_sample)(''redis.pool_size'' := - 4)\<rparr>\<rparr>"

section \<open>Facts about the strings\<close>

lemma HasPrefix_map:
  "HasPrefix s p \<Longrightarrow> \<forall>c\<in>set p. f c = c \<Longrightarrow> HasPrefix (map f s) p"
  by (induction s p rule: HasPrefix.induct) auto

lemma Contains_map:
  "Contains s p \<Longrightarrow> \<forall>c\<in>set p. f c = c \<Longrightarrow> Contains (map f s) p"
proof (induction s)
  case Nil
  then show ?case by simp
next
  case (Cons x xs)
  from Cons.prems(1) have "HasPrefix (x # xs) p \<or> Contains xs p" by simp
  then show ?case
  proof
    assume "HasPrefix (x # xs) p"
    from HasPrefix_map [OF this Cons.prems(2)] show ?thesis by simp
  next
    assume "Contains xs p"
    from Cons.IH [OF this Cons.prems(2)] show ?thesis by simp
  qed
qed

lemma HasPrefix_Contains: "HasPrefix t q \<Longrightarrow> Contains t q"
  by (cases t; cases q) auto

lemma Contains_append: "Contains b q \<Longrightarrow> Contains (a @ b) q"
  by (induction a) (auto intro: HasPrefix_Contains)

text \<open>
  A rune of width \<open>w\<close> takes \<open>w - 1\<close> bytes after its first one, and these are
  no ASCII bytes; so an ASCII text that occurs behind the first byte of a rune occurs
  behind the whole rune.
\<close>

lemma DecodeRune_width:
  assumes "DecodeRune (c # p) = (r, w)"
  shows "1 \<le> w \<and> w - 1 \<le> length p \<and> (\<forall>k<w - 1. (0x80::nat) \<le> of_char (p ! k))"
proof -
  have lo: "0x80 \<le> accept_lo n" for n by (simp add: accept_lo_def)
  from assms have
    "w = 1
     \<or> (w = 2 \<and> 1 \<le> length p \<and> accept_lo (of_char c) \<le> (of_char (p ! 0) :: nat))
     \<or> (w = 3 \<and> 2 \<le> length p \<and> accept_lo (of_char c) \<le> (of_char (p ! 0) :: nat)
          \<and> (0x80::nat) \<le> of_char (p ! 1))
     \<or> (w = 4 \<and> 3 \<le> length p \<and> accept_lo (of_char c) \<le> (of_char (p ! 0) :: nat)
          \<and> (0x80::nat) \<le> of_char (p ! 1) \<and> (0x80::nat) \<le> of_char (p ! 2))"
    by (auto simp: Let_def lead_size_def Suc_le_eq split: if_splits)
  then show ?thesis
  proof (elim disjE conjE)
    assume "w = 1"
    then show ?thesis by simp
  next
    assume a: "w = 2" "1 \<le> length p" "accept_lo (of_char c) \<le> (of_char (p ! 0) :: nat)"
    from a(3) lo [of "of_char c"] have "(0x80::nat) \<le> of_char (p ! 0)" by linarith
    with a(1,2) show ?thesis by simp
  next
    assume a: "w = 3" "2 \<le> length p" "accept_lo (of_char c) \<le> (of_char (p ! 0) :: nat)"
      "(0x80::nat) \<le> of_char (p ! 1)"
    from a(3) lo [of "of_char c"] have b: "(0x80::nat) \<le> of_char (p ! 0)" by linarith
    have "k < 2 \<Longrightarrow> k = 0 \<or> k = 1" for k :: nat by auto
    with a b show ?thesis by auto
  next
    assume a: "w = 4" "3 \<le> length p" "accept_lo (of_char c) \<le> (of_char (p ! 0) :: nat)"
      "(0x80::nat) \<le> of_char (p ! 1)" "(0x80::nat) \<le> of_char (p ! 2)"
    from a(3) lo [of "of_char c"] have b: "(0x80::nat) \<le> of_char (p ! 0)" by linarith
    have "k < 3 \<Longrightarrow> k = 0 \<or> k = 1 \<or> k = 2" for k :: nat by auto
    with a b show ?thesis by auto
  qed
qed

lemma Contains_drop:
  assumes "q \<noteq> []" and "\<forall>c\<in>set q. (of_char c :: nat) < 0x80"
  shows "Contains s q \<Longrightarrow> n \<le> length s \<Longrightarrow> \<forall>k<n. (0x80::nat) \<le> of_char (s ! k)
         \<Longrightarrow> Contains (drop n s) q"
proof (induction n arbitrary: s)
  case 0
  then show ?case by simp
next
  case (Suc n)
  from Suc.prems(2) obtain y ys where s: "s = y # ys" by (cases s) auto
  from assms(1) obtain x qs where q: "q = x # qs" by (cases q) auto
  from Suc.prems(3) s have y: "(0x80::nat) \<le> of_char y" by auto
  from assms(2) q have x: "(of_char x :: nat) < 0x80" by simp
  from x y have "y \<noteq> x" by auto
  with Suc.prems(1) s q have c: "Contains ys q" by simp
  have "\<forall>k<n. (0x80::nat) \<le> of_char (ys ! k)"
    using Suc.prems(3) s by auto
  with Suc.IH [OF c] Suc.prems(2) s show ?case by simp
qed

lemma EncodeRune_plain: "plain c \<Longrightarrow> EncodeRune (unicode_ToLower t (of_char c)) = [c]"
  by (auto simp: plain_def unicode_ToLower_def EncodeRune_def)

lemma HasPrefix_Map_runes:
  "\<forall>c\<in>set q. plain c \<Longrightarrow> HasPrefix s q \<Longrightarrow> HasPrefix (Map_runes (unicode_ToLower t) s) q"
proof (induction q arbitrary: s)
  case Nil
  then show ?case by simp
next
  case (Cons x qs)
  from Cons.prems(2) obtain s' where s: "s = x # s'" and p: "HasPrefix s' qs"
    by (cases s) auto
  from Cons.prems(1) have px: "plain x" and pq: "\<forall>c\<in>set qs. plain c" by simp_all
  from px have a: "(of_char x :: nat) < 0x80" by (simp add: plain_def)
  have "Map_runes (unicode_ToLower t) (x # s') = x # Map_runes (unicode_ToLower t) s'"
    using a EncodeRune_plain [OF px, of t] by simp
  with Cons.IH [OF pq p] s show ?case by simp
qed

lemma Contains_Map_runes:
  assumes "q \<noteq> []" and "\<forall>c\<in>set q. plain c"
  shows "Contains s q \<Longrightarrow> Contains (Map_runes (unicode_ToLower t) s) q"
proof (induction "unicode_ToLower t" s rule: Map_runes.induct)
  case 1
  with assms(1) show ?case by simp
next
  case (2 c p)
  obtain r w where d: "DecodeRune (c # p) = (r, w)" by (cases "DecodeRune (c # p)")
  have asc: "\<forall>c\<in>set q. (of_char c :: nat) < 0x80"
    using assms(2) by (simp add: plain_def)
  from "2.prems" have "HasPrefix (c # p) q \<or> Contains p q" by simp
  then show ?case
  proof
    assume "HasPrefix (c # p) q"
    from HasPrefix_Contains [OF HasPrefix_Map_runes [OF assms(2) this]] show ?thesis .
  next
    assume cp: "Contains p q"
    from DecodeRune_width [OF d]
    have "Contains (drop (w - 1) p) q"
      by (intro Contains_drop [OF assms(1) asc cp]) auto
    from "2.hyps" [OF d [symmetric] this]
    have "Contains (Map_runes (unicode_ToLower t) (drop (w - 1) p)) q" .
    from Contains_append [OF this, of "EncodeRune (unicode_ToLower t r)"] d
    show ?thesis by simp
  qed
qed

lemma lower_ascii_plain: "plain c \<Longrightarrow> lower_ascii c = c"
  by (auto simp: plain_def lower_ascii_def)

text \<open>Lower-casing keeps every occurrence of a text of plain bytes, whatever the case table.\<close>

lemma Contains_ToLower:
  assumes "q \<noteq> []" and "\<forall>c\<in>set q. plain c" and "Contains s q"
  shows "Contains (ToLower t s) q"
proof (cases "isASCII s")
  case True
  from assms(2) have "\<forall>c\<in>set q. lower_ascii c = c" by (simp add: lower_ascii_plain)
  from Contains_map [OF assms(3) this] True show ?thesis by (simp add: ToLower_def)
next
  case False
  with Contains_Map_runes [OF assms(1,2,3)] show ?thesis by (simp add: ToLower_def)
qed

lemma broken_pipe_plain: "\<forall>c\<in>set ''broken pipe''. plain c"
  by (simp add: plain_def)

lemma connection_reset_plain: "\<forall>c\<in>set ''connection reset by peer''. plain c"
  by (simp add: plain_def)

lemma Contains_ToLower_broken_pipe:
  "Contains m ''broken pipe'' \<Longrightarrow> Contains (ToLower t m) ''broken pipe''"
  by (rule Contains_ToLower [OF _ broken_pipe_plain]) simp_all

lemma Contains_ToLower_connection_reset:
  "Contains m ''connection reset by peer'' \<Longrightarrow> Contains (ToLower t m) ''connection reset by peer''"
  by (rule Contains_ToLower [OF _ connection_reset_plain]) simp_all

text \<open>The dotted capital I is lower-cased to an ASCII \<open>i\<close>, as Go does it.\<close>

lemma ToLower_dotted_I:
  "ToLower sample_LowerCase (''WRITE: BROKEN P'' @ [CHR 0xC4, CHR 0xB0] @ ''PE'') = ''write: broken pipe''"
  by code_simp

lemma fmt_d_8080: "fmt_d 8080 = ''8080''"
  by (simp add: fmt_d_def decimal.simps char_of_def bit_0)

section \<open>\<open>logger.Init\<close>\<close>

lemma sample_levels:
  "zap_UnmarshalText sample_LowerCase ''debug'' = Inr DebugLevel"
  "zap_UnmarshalText sample_LowerCase ''verbose'' = Inl (UnrecognizedLevel ''verbose'')"
  by (simp_all add: zap_UnmarshalText_def unmarshalText_def ToLower_def lower_ascii_def)

text \<open>
  The v1.27.0 parser reads a level without regard to case, also where lower-casing
  leaves ASCII: the dotted capital I followed by \<open>NFO\<close> is the info level.
\<close>

lemma dotted_INFO_parses:
  "zap_UnmarshalText sample_LowerCase ([CHR 0xC4, CHR 0xB0] @ ''NFO'') = Inr InfoLevel"
  by code_simp

text \<open>
  C8, as the source has it: \<open>logger.Init\<close> returns exactly the error of
  \<open>UnmarshalText\<close> on the configured level: an error when the level does not
  parse, nil when it does. When it parses, the global logger becomes the one built
  from the encoder, the sink of the configuration and that level. \<open>Init\<close> does not
  open the destination: the installed sink has no open file, so no I/O error of the
  destination can come out of \<open>Init\<close>.
\<close>

theorem logger_Init_error_iff:
  "(fst (logger_Init um v g) = Some err) = (um (GetString v ''log.level'') = Inl err)
   \<and> (fst (logger_Init um v g) = None) = (\<exists>l. um (GetString v ''log.level'') = Inr l)
   \<and> (um (GetString v ''log.level'') = Inr l \<longrightarrow>
        snd (logger_Init um v g) =
          Logger getEncoder
            (getLogWriter (GetString v ''log.filename'') (GetInt v ''log.max_size'')
               (GetInt v ''log.max_backups'') (GetInt v ''log.max_age'')) l True)
   \<and> (fst (logger_Init um v g) = None \<longrightarrow> \<not> file_open (sink (snd (logger_Init um v g))))"
proof (cases "um (GetString v ''log.level'')")
  case (Inl e)
  then show ?thesis by (simp add: logger_Init_def)
next
  case (Inr l')
  then show ?thesis by (simp add: logger_Init_def getLogWriter_def)
qed

theorem logger_Init_error_iff_witness:
  "fst (logger_Init (zap_UnmarshalText sample_LowerCase) cfg_sample NopLogger) = None
   \<and> snd (logger_Init (zap_UnmarshalText sample_LowerCase) cfg_sample NopLogger) =
       Logger getEncoder (getLogWriter ''web_app.log'' 200 7 30) DebugLevel True
   \<and> \<not> file_open (sink (snd (logger_Init (zap_UnmarshalText sample_LowerCase) cfg_sample NopLogger)))"
proof -
  have v: "GetString cfg_sample ''log.level'' = ''debug''"
    "GetString cfg_sample ''log.filename'' = ''web_app.log''"
    "GetInt cfg_sample ''log.max_size'' = 200" "GetInt cfg_sample ''log.max_backups'' = 7"
    "GetInt cfg_sample ''log.max_age'' = 30"
    by (simp_all add: cfg_sample_def)
  from logger_Init_error_iff [of "zap_UnmarshalText sample_LowerCase" cfg_sample NopLogger
      "OtherErr []" DebugLevel]
  show ?thesis unfolding v sample_levels by auto
qed

text \<open>
  C8 as it is written fails: with a destination that cannot be opened and a level that
  parses, \<open>Init\<close> returns nil; the I/O error comes out of the first write to the
  sink.
\<close>

theorem logger_Init_io_counterexample:
  "fs_denied (GetString cfg_unwritable ''log.filename'') = Some (IOError ''permission denied'')
   \<and> fst (logger_Init (zap_UnmarshalText sample_LowerCase) cfg_unwritable NopLogger) = None
   \<and> lumberjack_Write fs_denied
        (sink (snd (logger_Init (zap_UnmarshalText sample_LowerCase) cfg_unwritable NopLogger)))
       = Inl (IOError ''permission denied'')"
  by (simp add: fs_denied_def cfg_unwritable_def cfg_sample_def logger_Init_def sample_levels
      getLogWriter_def lumberjack_Write_def)

text \<open>
  C10: when \<open>logger.Init\<close> returns an error, the global logger is the one that was
  installed before; the error is the one of \<open>UnmarshalText\<close>, so the global
  logger is replaced only after the level has parsed.
\<close>

theorem logger_Init_failure_keeps_global:
  "fst (logger_Init um v g) = Some err \<Longrightarrow>
     snd (logger_Init um v g) = g \<and> um (GetString v ''log.level'') = Inl err"
  by (auto simp: logger_Init_def Let_def split: sum.splits)

theorem logger_Init_failure_keeps_global_witness:
  "fst (logger_Init (zap_UnmarshalText sample_LowerCase) cfg_bad_level NopLogger)
     = Some (UnrecognizedLevel ''verbose'')
   \<and> snd (logger_Init (zap_UnmarshalText sample_LowerCase) cfg_bad_level NopLogger) = NopLogger
   \<and> zap_UnmarshalText sample_LowerCase (GetString cfg_bad_level ''log.level'')
       = Inl (UnrecognizedLevel ''verbose'')"
proof -
  have "fst (logger_Init (zap_UnmarshalText sample_LowerCase) cfg_bad_level NopLogger)
          = Some (UnrecognizedLevel ''verbose'')"
    by (simp add: logger_Init_def cfg_bad_level_def sample_levels)
  from this logger_Init_failure_keeps_global [OF this] show ?thesis by simp
qed

section \<open>The recovery middleware\<close>

lemma private_IsType: "IsType \<lparr> Err = e, ErrType = ErrorTypePrivate, Meta = m \<rparr> ErrorTypePrivate"
  by (simp add: IsType_def ErrorTypePrivate_def)

lemma private_in_ByType:
  "\<lparr> Err = e, ErrType = ErrorTypePrivate, Meta = m \<rparr>
     \<in> set (ByType ErrorTypePrivate (a @ [\<lparr> Err = e, ErrType = ErrorTypePrivate, Meta = m \<rparr>]))"
  using private_IsType [of e m] by (simp add: ByType_def)

lemma brokenPipe_of_benign:
  assumes "Contains (sc @ '': '' @ m) ''broken pipe''
           \<or> Contains (sc @ '': '' @ m) ''connection reset by peer''"
  shows "brokenPipe_of t (OpErrorPtr (Some (OpError op net
           (Some (SyscallErrorPtr (Some (SyscallError sc (Some m)))))))) = Inr True"
  using assms Contains_ToLower_broken_pipe [of "sc @ '': '' @ m" t]
    Contains_ToLower_connection_reset [of "sc @ '': '' @ m" t]
  by (auto simp: brokenPipe_of_def SyscallError_Error_def)

lemma GinRecovery_other_run:
  assumes "h c = (Some err, c1, logs)"
    and "brokenPipe_of (LowerCase rt) err = Inr False"
  shows "GinRecovery rt stack h c =
           (None,
            AbortWithStatus 500 c1,
            logs @ [\<lparr> Lvl = ErrorLevel, Message = ''[Recovery from panic]'',
                      Fields = [(''error'', zap_Any err),
                                (''request'', zap_String (DumpRequest rt (Request c1) False))]
                               @ (if stack then [(''stack'', zap_String (debug_Stack rt))] else []) \<rparr>])"
  by (simp add: GinRecovery_def assms StatusInternalServerError_def)

lemma AbortWithStatus_500:
  "AbortWithStatus 500 c =
     c\<lparr>status := (if written c then status c else 500), written := True, aborted := True\<rparr>"
  by (simp add: AbortWithStatus_def Abort_def WriteHeaderNow_def WriteHeader_def)

text \<open>
  C4: a handler panics with a \<open>*net.OpError\<close> whose \<open>Err\<close> is a
  \<open>*os.SyscallError\<close>, and the message of the latter contains \<open>broken pipe\<close> or
  \<open>connection reset by peer\<close>. Then \<open>GinRecovery\<close> returns normally; it has
  handed exactly one record to the logger after those of the handler, at error level,
  with the recovered value and the dump of the request without body; it has appended
  the value to the errors of the context with the private type, which is what the
  telemetry's \<open>errors\<close> field is built from; the context is aborted; and the status
  and the written flag of the response are as the handler left them.
\<close>

theorem GinRecovery_benign_disconnect:
  assumes "h c = (Some err, c1, logs)"
    and "err = OpErrorPtr (Some (OpError op net
                 (Some (SyscallErrorPtr (Some (SyscallError sc (Some m)))))))"
    and "Contains (sc @ '': '' @ m) ''broken pipe''
         \<or> Contains (sc @ '': '' @ m) ''connection reset by peer''"
  shows "GinRecovery rt stack h c =
           (None,
            c1\<lparr>Errors := Errors c1 @ [\<lparr> Err = err, ErrType = ErrorTypePrivate, Meta = None \<rparr>],
               aborted := True\<rparr>,
            logs @ [\<lparr> Lvl = ErrorLevel, Message = URL_Path (Request c1),
                      Fields = [(''error'', zap_Any err),
                                (''request'', zap_String (DumpRequest rt (Request c1) False))] \<rparr>])
         \<and> status (fst (snd (GinRecovery rt stack h c))) = status c1
         \<and> written (fst (snd (GinRecovery rt stack h c))) = written c1
         \<and> aborted (fst (snd (GinRecovery rt stack h c)))
         \<and> \<lparr> Err = err, ErrType = ErrorTypePrivate, Meta = None \<rparr>
             \<in> set (ByType ErrorTypePrivate (Errors (fst (snd (GinRecovery rt stack h c)))))"
proof -
  have bp: "brokenPipe_of (LowerCase rt) err = Inr True"
    unfolding assms(2) by (rule brokenPipe_of_benign [OF assms(3)])
  have ae: "assert_error err = Inr err"
    unfolding assms(2) by (simp add: assert_error_def)
  have run: "GinRecovery rt stack h c =
           (None,
            c1\<lparr>Errors := Errors c1 @ [\<lparr> Err = err, ErrType = ErrorTypePrivate, Meta = None \<rparr>],
               aborted := True\<rparr>,
            logs @ [\<lparr> Lvl = ErrorLevel, Message = URL_Path (Request c1),
                      Fields = [(''error'', zap_Any err),
                                (''request'', zap_String (DumpRequest rt (Request c1) False))] \<rparr>])"
    by (simp add: GinRecovery_def assms(1) bp ae Abort_def Context_Error_def)
  show ?thesis
    unfolding run using private_in_ByType [of err None "Errors c1"] by simp
qed

theorem GinRecovery_benign_disconnect_witness:
  "GinRecovery sample_rt True h_broken_pipe sample_ctx =
     (None,
      sample_ctx\<lparr>Errors := [\<lparr> Err = broken_pipe_err, ErrType = ErrorTypePrivate, Meta = None \<rparr>],
                 aborted := True\<rparr>,
      [\<lparr> Lvl = ErrorLevel, Message = ''/ping'',
         Fields = [(''error'', zap_Any broken_pipe_err),
                   (''request'', zap_String ''GET /ping HTTP/1.1'')] \<rparr>])"
proof -
  have a: "h_broken_pipe sample_ctx = (Some broken_pipe_err, sample_ctx, [])"
    by (simp add: h_broken_pipe_def)
  have b: "Contains (''write'' @ '': '' @ ''broken pipe'') ''broken pipe''
           \<or> Contains (''write'' @ '': '' @ ''broken pipe'') ''connection reset by peer''"
    by simp
  from GinRecovery_benign_disconnect [of h_broken_pipe sample_ctx broken_pipe_err sample_ctx "[]"
      "''write''" "''tcp''" "''write''" "''broken pipe''" sample_rt True, OF a broken_pipe_err_def b]
  show ?thesis by (simp add: sample_ctx_def sample_rt_def sample_request_def)
qed

text \<open>
  The source lower-cases the message before it looks for the two texts, so a message in
  capitals is a broken connection as well, also where lower-casing leaves ASCII.
\<close>

lemma dotted_pipe_is_benign: "brokenPipe_of (LowerCase sample_rt) dotted_pipe_err = Inr True"
proof -
  have "ToLower sample_LowerCase (''WRITE'' @ '': '' @ ''BROKEN P'' @ [CHR 0xC4, CHR 0xB0] @ ''PE'')
          = ''write: broken pipe''"
    using ToLower_dotted_I by simp
  then show ?thesis
    by (simp add: dotted_pipe_err_def brokenPipe_of_def SyscallError_Error_def sample_rt_def)
qed

text \<open>
  C5, as the source has it: a handler panics with a value that the classification
  finds not to be a broken connection. Then \<open>GinRecovery\<close> returns normally, so the
  panic goes no further; it has handed exactly one record to the logger after those of
  the handler, at error level, with the recovered value and the dump of the request,
  and with the stack trace exactly when \<open>stack\<close> is true; and it has called
  \<open>AbortWithStatus 500\<close>: the context is aborted and the header is written. The
  status is 500 when the handler had not written the header before it panicked; a
  header that was already written keeps its status.
\<close>

theorem GinRecovery_other_fault:
  assumes "h c = (Some err, c1, logs)"
    and "brokenPipe_of (LowerCase rt) err = Inr False"
  shows "GinRecovery rt stack h c =
           (None,
            c1\<lparr>status := (if written c1 then status c1 else 500), written := True,
               aborted := True\<rparr>,
            logs @ [\<lparr> Lvl = ErrorLevel, Message = ''[Recovery from panic]'',
                      Fields = [(''error'', zap_Any err),
                                (''request'', zap_String (DumpRequest rt (Request c1) False))]
                               @ (if stack then [(''stack'', zap_String (debug_Stack rt))] else []) \<rparr>])
         \<and> (\<not> written c1 \<longrightarrow> status (fst (snd (GinRecovery rt stack h c))) = 500)
         \<and> (written c1 \<longrightarrow> status (fst (snd (GinRecovery rt stack h c))) = status c1)"
  unfolding GinRecovery_other_run [of h c err c1 logs rt stack, OF assms] AbortWithStatus_500
  by simp

theorem GinRecovery_other_fault_witness:
  "GinRecovery sample_rt True h_boom sample_ctx =
     (None,
      sample_ctx\<lparr>status := 500, written := True, aborted := True\<rparr>,
      [\<lparr> Lvl = ErrorLevel, Message = ''[Recovery from panic]'',
         Fields = [(''error'', zap_Any (NonError ''boom'')),
                   (''request'', zap_String ''GET /ping HTTP/1.1''),
                   (''stack'', zap_String ''goroutine 7 [running]'')] \<rparr>])
   \<and> \<not> written sample_ctx
   \<and> GinRecovery sample_rt False h_created_boom sample_ctx =
     (None,
      sample_ctx\<lparr>status := 201, written := True, aborted := True\<rparr>,
      [\<lparr> Lvl = ErrorLevel, Message = ''[Recovery from panic]'',
         Fields = [(''error'', zap_Any (NonError ''boom'')),
                   (''request'', zap_String ''GET /ping HTTP/1.1'')] \<rparr>])"
proof -
  have a: "h_boom sample_ctx = (Some (NonError ''boom''), sample_ctx, [])"
    by (simp add: h_boom_def)
  have a': "h_created_boom sample_ctx
            = (Some (NonError ''boom''), sample_ctx\<lparr>status := 201, written := True\<rparr>, [])"
    by (simp add: h_created_boom_def)
  have b: "brokenPipe_of (LowerCase sample_rt) (NonError ''boom'') = Inr False"
    by (simp add: brokenPipe_of_def)
  from GinRecovery_other_fault [of h_boom sample_ctx "NonError ''boom''" sample_ctx "[]" sample_rt True,
      OF a b]
    GinRecovery_other_fault [of h_created_boom sample_ctx "NonError ''boom''"
      "sample_ctx\<lparr>status := 201, written := True\<rparr>" "[]" sample_rt False, OF a' b]
  show ?thesis
    by (simp add: sample_ctx_def sample_rt_def sample_request_def)
qed

text \<open>
  C5 as it is written fails: a handler that has written the header with status 201 and
  then panics with a string is recovered, but the status of the response stays 201.
\<close>

theorem GinRecovery_written_status_counterexample:
  "fst (h_created_boom sample_ctx) = Some (NonError ''boom'')
   \<and> brokenPipe_of (LowerCase sample_rt) (NonError ''boom'') = Inr False
   \<and> fst (GinRecovery sample_rt False h_created_boom sample_ctx) = None
   \<and> status (fst (snd (GinRecovery sample_rt False h_created_boom sample_ctx))) = 201"
  by (simp add: h_created_boom_def brokenPipe_of_def GinRecovery_def AbortWithStatus_500
      StatusInternalServerError_def)

text \<open>
  C9: when the classification sets \<open>brokenPipe\<close>, the recovered value is a non-nil
  \<open>*net.OpError\<close>, and the assertion \<open>err.(error)\<close> of the broken-pipe branch
  succeeds and yields the value itself.
\<close>

theorem benign_assertion_never_fails:
  "brokenPipe_of t err = Inr True \<Longrightarrow> (\<exists>ne. err = OpErrorPtr (Some ne)) \<and> assert_error err = Inr err"
  by (auto simp: brokenPipe_of_def assert_error_def
      split: go_value.splits option.splits error_value.splits sum.splits)

theorem benign_assertion_never_fails_witness:
  "brokenPipe_of sample_LowerCase broken_pipe_err = Inr True
   \<and> assert_error broken_pipe_err = Inr broken_pipe_err"
proof -
  have "brokenPipe_of sample_LowerCase broken_pipe_err = Inr True"
    by (simp add: broken_pipe_err_def brokenPipe_of_def SyscallError_Error_def ToLower_def
        lower_ascii_def)
  from this benign_assertion_never_fails [OF this] show ?thesis by simp
qed

text \<open>
  The classification can itself panic, on a nil \<open>*net.OpError\<close>, a nil
  \<open>*os.SyscallError\<close> or a \<open>SyscallError\<close> without inner error; then the
  deferred function panics and nothing is logged.
\<close>

lemma GinRecovery_classification_panics:
  "h c = (Some err, c1, logs) \<Longrightarrow> brokenPipe_of (LowerCase rt) err = Inl p \<Longrightarrow>
     GinRecovery rt stack h c = (Some p, c1, logs)"
  by (simp add: GinRecovery_def)

section \<open>The telemetry middleware\<close>

text \<open>
  What \<open>ByType\<close> and \<open>String\<close> of gin compute, written out: the errors whose
  type has the private bit, numbered from 1 in their order, one line each and a second
  line for a \<open>Meta\<close> value.
\<close>

lemma String_from_concat:
  "String_from etext i a =
     concat (map (\<lambda>(j, msg). ''Error #'' @ fmt_02d (j + 1) @ '': '' @ etext (Err msg) @ [CHR 0x0A]
                     @ (case Meta msg of None \<Rightarrow> [] | Some m \<Rightarrow> ''     Meta: '' @ m @ [CHR 0x0A]))
                 (enumerate i a))"
  by (induction a arbitrary: i) simp_all

lemma ByType_private:
  "ByType ErrorTypePrivate a = filter (\<lambda>msg. and (ErrType msg) 1 \<noteq> 0) a"
proof -
  have "ErrorTypePrivate \<noteq> ErrorTypeAny"
    by (simp add: ErrorTypePrivate_def ErrorTypeAny_def)
  then show ?thesis
    by (auto simp: ByType_def IsType_def ErrorTypePrivate_def word_greater_zero_iff
        intro: filter_cong)
qed

lemma private_errors_joined:
  "errorMsgs_String etext (ByType ErrorTypePrivate a) =
     concat (map (\<lambda>(j, msg). ''Error #'' @ fmt_02d (j + 1) @ '': '' @ etext (Err msg) @ [CHR 0x0A]
                     @ (case Meta msg of None \<Rightarrow> [] | Some m \<Rightarrow> ''     Meta: '' @ m @ [CHR 0x0A]))
                 (enumerate 0 (filter (\<lambda>msg. and (ErrType msg) 1 \<noteq> 0) a)))"
  unfolding ByType_private errorMsgs_String_def String_from_concat by simp

text \<open>
  C6, as the source has it: when the rest of the chain has returned, \<open>GinLogger\<close>
  hands exactly one record to the logger, after all the records of the rest of the
  chain: at info level, with the path and the query read before \<open>c.Next ()\<close>, and the
  status, the method, the client address, the user agent and the errors of the context
  as the rest of the chain has left them, and the difference of the two clock readings.
  The errors are those with the private bit, joined in their order as the lines
  \<open>Error #01: ...\<close>, \<open>Error #02: ...\<close> (the empty text when there is none). When
  the rest of the chain panics, the panic passes through \<open>GinLogger\<close>, which has no
  deferred function, and no record is handed to the logger.
\<close>

theorem GinLogger_one_record:
  "(h c = (None, c1, logs) \<longrightarrow>
      GinLogger rt start finish h c =
        (None, c1,
         logs @ [\<lparr> Lvl = InfoLevel, Message = URL_Path (Request c),
                   Fields = [(''status'', zap_Int (status c1)),
                             (''method'', zap_String (Method (Request c1))),
                             (''path'', zap_String (URL_Path (Request c))),
                             (''query'', zap_String (URL_RawQuery (Request c))),
                             (''ip'', zap_String (ClientIP c1)),
                             (''user-agent'', zap_String (UserAgent (Request c1))),
                             (''errors'', zap_String
                                (concat (map (\<lambda>(j, msg).
                                     ''Error #'' @ fmt_02d (j + 1) @ '': ''
                                     @ error_text rt (Err msg) @ [CHR 0x0A]
                                     @ (case Meta msg of None \<Rightarrow> []
                                        | Some m \<Rightarrow> ''     Meta: '' @ m @ [CHR 0x0A]))
                                   (enumerate 0
                                      (filter (\<lambda>msg. and (ErrType msg) 1 \<noteq> 0) (Errors c1)))))),
                             (''cost'', zap_Duration (finish - start))] \<rparr>]))
   \<and> (h c = (Some p, c1, logs) \<longrightarrow> GinLogger rt start finish h c = (Some p, c1, logs))"
  by (simp add: GinLogger_def Let_def private_errors_joined)

theorem GinLogger_one_record_witness:
  "GinLogger sample_rt 1000 4500 h_errors sample_ctx =
     (None, sample_ctx\<lparr>status := 404, written := True, Errors := three_errors\<rparr>,
      [\<lparr> Lvl = InfoLevel, Message = ''/ping'',
         Fields = [(''status'', zap_Int 404),
                   (''method'', zap_String ''GET''),
                   (''path'', zap_String ''/ping''),
                   (''query'', zap_String ''a=1''),
                   (''ip'', zap_String ''10.0.0.7''),
                   (''user-agent'', zap_String ''curl/8.0''),
                   (''errors'', zap_String
                      (''Error #01: no rows'' @ [CHR 0x0A]
                       @ ''Error #02: write tcp: write: broken pipe'' @ [CHR 0x0A]
                       @ ''     Meta: retry'' @ [CHR 0x0A])),
                   (''cost'', zap_Duration 3500)] \<rparr>])
   \<and> GinLogger sample_rt 1000 4500 h_ok sample_ctx =
     (None, sample_ctx\<lparr>written := True\<rparr>,
      [\<lparr> Lvl = InfoLevel, Message = ''/ping'',
         Fields = [(''status'', zap_Int 200),
                   (''method'', zap_String ''GET''),
                   (''path'', zap_String ''/ping''),
                   (''query'', zap_String ''a=1''),
                   (''ip'', zap_String ''10.0.0.7''),
                   (''user-agent'', zap_String ''curl/8.0''),
                   (''errors'', zap_String []),
                   (''cost'', zap_Duration 3500)] \<rparr>])
   \<and> GinLogger sample_rt 1000 4500 h_boom sample_ctx = (Some (NonError ''boom''), sample_ctx, [])"
proof -
  have a: "h_errors sample_ctx
           = (None, sample_ctx\<lparr>status := 404, written := True, Errors := three_errors\<rparr>, [])"
    by (simp add: h_errors_def)
  have b: "h_ok sample_ctx = (None, sample_ctx\<lparr>written := True\<rparr>, [])"
    by (simp add: h_ok_def)
  have c: "h_boom sample_ctx = (Some (NonError ''boom''), sample_ctx, [])"
    by (simp add: h_boom_def)
  have d1: "fmt_02d (Suc 0) = ''01''" and d2: "fmt_02d (Suc (Suc 0)) = ''02''"
    by (simp_all add: fmt_02d_def decimal.simps char_of_def bit_0)
  from a b c
    GinLogger_one_record [of h_errors sample_ctx
      "sample_ctx\<lparr>status := 404, written := True, Errors := three_errors\<rparr>" "[]"
      sample_rt 1000 4500]
    GinLogger_one_record [of h_ok sample_ctx "sample_ctx\<lparr>written := True\<rparr>" "[]"
      sample_rt 1000 4500]
    GinLogger_one_record [of h_boom sample_ctx sample_ctx "[]" sample_rt 1000 4500
      "NonError ''boom''"]
  show ?thesis
    by (simp add: sample_ctx_def sample_request_def sample_rt_def sample_error_text_def
        three_errors_def broken_pipe_err_def d1 d2)
qed

text \<open>
  C6 as it is written fails: a request whose handler panics with no recovery behind
  \<open>GinLogger\<close> passes through \<open>GinLogger\<close> and leaves no telemetry record.
\<close>

theorem GinLogger_panic_counterexample:
  "GinLogger sample_rt 1000 4500 h_boom sample_ctx = (Some (NonError ''boom''), sample_ctx, [])"
  by (simp add: GinLogger_def h_boom_def)

text \<open>
  With \<open>GinRecovery\<close> as the rest of the chain, a panic that is classified does not
  reach \<open>GinLogger\<close>: the telemetry record comes after the record of the recovery and
  carries the status that the recovery has left.
\<close>

lemma GinLogger_over_GinRecovery:
  assumes "h c = (Some err, c1, logs)" and "brokenPipe_of (LowerCase rt) err = Inr False"
  shows "\<exists>r t. GinLogger rt start finish (GinRecovery rt stack h) c
               = (None, AbortWithStatus 500 c1, logs @ [r, t])
             \<and> Lvl r = ErrorLevel \<and> Lvl t = InfoLevel
             \<and> map_of (Fields t) ''status'' = Some (zap_Int (status (AbortWithStatus 500 c1)))"
  using GinRecovery_other_run [of h c err c1 logs rt stack, OF assms]
  by (simp add: GinLogger_def Let_def)

section \<open>The resource clients\<close>

text \<open>
  C3, as the source has it: once the package pointer has been assigned, \<open>Close\<close>
  can be called twice; neither call panics and the connections are released once.
  The pointer is assigned after a successful \<open>mysql.Init\<close>, and after every
  \<open>redis.Init\<close> that has returned, with an error or without, since it assigns the
  client before it pings.
\<close>

theorem Close_twice_on_assigned_handle:
  "(db s = Some d \<longrightarrow>
      fst (mysql_Close s) = None
      \<and> fst (mysql_Close (snd (mysql_Close s))) = None
      \<and> map_option db_released (db (snd (mysql_Close (snd (mysql_Close s)))))
          = Some (if db_closed d then db_released d else db_released d + 1))
   \<and> (rdb s = Some r \<longrightarrow>
      fst (redis_Close s) = None
      \<and> fst (redis_Close (snd (redis_Close s))) = None
      \<and> map_option pool_released (rdb (snd (redis_Close (snd (redis_Close s)))))
          = Some (if pool_closed r then pool_released r else pool_released r + 1))
   \<and> (fst (mysql_Init e s) = None \<longrightarrow>
      fst (mysql_Close (snd (mysql_Init e s))) = None
      \<and> fst (mysql_Close (snd (mysql_Close (snd (mysql_Init e s))))) = None)
   \<and> (fst (redis_Init e s) = Inr err \<longrightarrow>
      fst (redis_Close (snd (redis_Init e s))) = None
      \<and> fst (redis_Close (snd (redis_Close (snd (redis_Init e s))))) = None)"
  by (simp add: mysql_Close_def redis_Close_def mysql_Init_def redis_Init_def emit_def zap_log_def
      sql_DB_Close_def redis_Client_Close_def new_Client_def Let_def split: option.splits)

theorem Close_twice_on_assigned_handle_witness:
  "db proc_connected \<noteq> None \<and> rdb proc_connected \<noteq> None
   \<and> fst (mysql_Close (snd (mysql_Close proc_connected))) = None
   \<and> map_option db_released (db (snd (mysql_Close (snd (mysql_Close proc_connected))))) = Some 1
   \<and> fst (redis_Close (snd (redis_Close proc_connected))) = None
   \<and> map_option pool_released (rdb (snd (redis_Close (snd (redis_Close proc_connected))))) = Some 1
   \<and> fst (mysql_Init env_ok proc0) = None
   \<and> fst (mysql_Close (snd (mysql_Close (snd (mysql_Init env_ok proc0))))) = None
   \<and> fst (redis_Init env_redis_down proc0) = Inr (Some (OtherErr ''connection refused''))
   \<and> fst (redis_Close (snd (redis_Close (snd (redis_Init env_redis_down proc0))))) = None"
proof -
  have a: "db proc_connected = Some \<lparr> db_closed = False, db_released = 0, MaxOpenConns = 200,
                                       MaxIdleConns = 50 \<rparr>"
    by (simp add: proc_connected_def)
  have b: "rdb proc_connected = Some (new_Client (redis_options cfg_sample))"
    by (simp add: proc_connected_def)
  have c: "fst (mysql_Init env_ok proc0) = None"
    by (simp add: mysql_Init_def env_ok_def)
  have d: "fst (redis_Init env_redis_down proc0) = Inr (Some (OtherErr ''connection refused''))"
    by (simp add: redis_Init_def env_redis_down_def env_ok_def redis_options_def cfg_sample_def)
  from a b c d
    Close_twice_on_assigned_handle [of proc_connected
      "\<lparr> db_closed = False, db_released = 0, MaxOpenConns = 200, MaxIdleConns = 50 \<rparr>"
      "new_Client (redis_options cfg_sample)" env_ok "None"]
    Close_twice_on_assigned_handle [of proc0 _ _ env_ok "None"]
    Close_twice_on_assigned_handle [of proc0 _ _ env_redis_down "Some (OtherErr ''connection refused'')"]
  show ?thesis by (simp add: new_Client_def)
qed

text \<open>
  C3 as it is written fails: \<open>mysql.Init\<close> that cannot connect leaves \<open>db\<close> nil,
  and \<open>mysql.Close\<close> then panics; so do both \<open>Close\<close> functions before any
  \<open>Init\<close>, and \<open>redis.Close\<close> after a \<open>redis.Init\<close> in which
  \<open>redis.NewClient\<close> has panicked.
\<close>

theorem Close_after_failed_Init_counterexample:
  "fst (mysql_Init env_mysql_down proc0) = Some (OtherErr ''connection refused'')
   \<and> fst (mysql_Close (snd (mysql_Init env_mysql_down proc0))) = Some nil_dereference
   \<and> fst (mysql_Close proc0) = Some nil_dereference
   \<and> fst (redis_Close proc0) = Some nil_dereference
   \<and> fst (redis_Init env_bad_pool proc0)
       = Inl (ErrorValue (OtherError ''makechan: size out of range''))
   \<and> fst (redis_Close (snd (redis_Init env_bad_pool proc0))) = Some nil_dereference"
  by (simp add: mysql_Init_def mysql_Close_def redis_Close_def redis_Init_def env_mysql_down_def
      env_bad_pool_def env_ok_def proc0_def emit_def zap_log_def redis_options_def cfg_sample_def)

section \<open>\<open>main\<close>\<close>

lemmas main_defs =
  settings_Init_def logger_Init_def mysql_Init_def redis_Init_def return_main_def panic_main_def
  mysql_Close_def redis_Close_def emit_def zap_log_def os_Exit_def sql_DB_Close_def
  redis_Client_Close_def new_Client_def Let_def

subsection \<open>A failing initializer\<close>

lemma main_settings_failure:
  assumes "ReadInConfig e = Some err"
  shows "main e s =
     (Returned,
      s\<lparr>out := out s @ [Printf (''viper.ReadInConfig failed, error: %v'' @ nl) err,
                         Printf (''init settings failed, error: %v'' @ nl) err]\<rparr>)"
  by (simp add: main_def main_defs assms)

lemma main_logger_failure:
  assumes "ReadInConfig e = None"
    and "UnmarshalText e (GetString (config e) ''log.level'') = Inl err"
  shows "main e s =
     (Returned,
      s\<lparr>watching := True,
        out := out s @ [Printf (''init logger failed, error: %v'' @ nl) err]\<rparr>)"
  by (simp add: main_def main_defs assms)

lemma main_mysql_failure:
  assumes "ReadInConfig e = None"
    and "UnmarshalText e (GetString (config e) ''log.level'') = Inr l"
    and "sqlx_Connect e ''mysql'' (mysql_dsn (config e)) = Some err"
  shows "main e s =
     (Returned,
      s\<lparr>zapL := Logger getEncoder
                  (getLogWriter (GetString (config e) ''log.filename'')
                     (GetInt (config e) ''log.max_size'') (GetInt (config e) ''log.max_backups'')
                     (GetInt (config e) ''log.max_age'')) l True,
        db := None,
        watching := True,
        out := out s @
         [ZapLog \<lparr> Lvl = DebugLevel, Message = ''logger initialized successfully'', Fields = [] \<rparr>,
          ZapLog \<lparr> Lvl = ErrorLevel, Message = ''connect DB failed'',
                   Fields = [(''error'', zap_Error err)] \<rparr>,
          Printf (''init mysql failed, error: %v'' @ nl) err,
          ZapSync]\<rparr>)"
  by (simp add: main_def main_defs assms)

lemma main_redis_failure:
  assumes "ReadInConfig e = None"
    and "UnmarshalText e (GetString (config e) ''log.level'') = Inr l"
    and "sqlx_Connect e ''mysql'' (mysql_dsn (config e)) = None"
    and "redis_NewClient e (redis_options (config e)) = None"
    and "redis_Ping e (redis_options (config e)) = Some err"
  shows "main e s =
     (Returned,
      s\<lparr>zapL := Logger getEncoder
                  (getLogWriter (GetString (config e) ''log.filename'')
                     (GetInt (config e) ''log.max_size'') (GetInt (config e) ''log.max_backups'')
                     (GetInt (config e) ''log.max_age'')) l True,
        db := Some \<lparr> db_closed = True, db_released = 1,
                       MaxOpenConns = GetInt (config e) ''mysql.max_open_conns'',
                       MaxIdleConns = GetInt (config e) ''mysql.max_idle_conns'' \<rparr>,
        rdb := Some \<lparr> options = redis_options (config e), pool_closed = False, pool_released = 0 \<rparr>,
        watching := True,
        out := out s @
         [ZapLog \<lparr> Lvl = DebugLevel, Message = ''logger initialized successfully'', Fields = [] \<rparr>,
          Printf (''init redis failed, error: %v'' @ nl) err,
          mysql_Close_called,
          ZapSync]\<rparr>)"
  by (simp add: main_def main_defs assms)

text \<open>
  A panic of \<open>redis.NewClient\<close> is no error return: \<open>main\<close> prints nothing, runs
  the deferred \<open>mysql.Close\<close> and flush, and ends panicking.
\<close>

lemma main_redis_NewClient_panics:
  assumes "ReadInConfig e = None"
    and "UnmarshalText e (GetString (config e) ''log.level'') = Inr l"
    and "sqlx_Connect e ''mysql'' (mysql_dsn (config e)) = None"
    and "redis_NewClient e (redis_options (config e)) = Some p"
  shows "fst (main e s) = Panicked p
    \<and> out (snd (main e s)) = out s @
         [ZapLog \<lparr> Lvl = DebugLevel, Message = ''logger initialized successfully'', Fields = [] \<rparr>,
          mysql_Close_called,
          ZapSync]"
  by (simp add: main_def main_defs assms)

lemma env_no_config_facts:
  "ReadInConfig env_no_config = Some (OtherErr ''open ./config.yaml: no such file or directory'')"
  by (simp add: env_no_config_def)

lemma env_bad_level_facts:
  "ReadInConfig env_bad_level = None"
  "UnmarshalText env_bad_level (GetString (config env_bad_level) ''log.level'')
     = Inl (UnrecognizedLevel ''verbose'')"
  by (simp_all add: env_bad_level_def env_ok_def cfg_bad_level_def sample_levels)

lemma env_mysql_down_facts:
  "ReadInConfig env_mysql_down = None"
  "UnmarshalText env_mysql_down (GetString (config env_mysql_down) ''log.level'') = Inr DebugLevel"
  "sqlx_Connect env_mysql_down ''mysql'' (mysql_dsn (config env_mysql_down))
     = Some (OtherErr ''connection refused'')"
  by (simp_all add: env_mysql_down_def env_ok_def cfg_sample_def sample_levels)

lemma env_redis_down_facts:
  "ReadInConfig env_redis_down = None"
  "UnmarshalText env_redis_down (GetString (config env_redis_down) ''log.level'') = Inr DebugLevel"
  "sqlx_Connect env_redis_down ''mysql'' (mysql_dsn (config env_redis_down)) = None"
  "redis_NewClient env_redis_down (redis_options (config env_redis_down)) = None"
  "redis_Ping env_redis_down (redis_options (config env_redis_down))
     = Some (OtherErr ''connection refused'')"
  by (simp_all add: env_redis_down_def env_ok_def cfg_sample_def sample_levels redis_options_def)

text \<open>
  C2, as the source has it: when an initializer returns an error, \<open>main\<close> prints the
  error and returns; the listener is not started. On that return the calls deferred so
  far run, the last deferred first: none when the settings or the logger fail, the flush
  of the logger when \<open>mysql.Init\<close> fails, and \<open>mysql.Close\<close> and then the flush
  of the logger when \<open>redis.Init\<close> fails. The subsystem that failed is not closed:
  the redis client of a failed \<open>redis.Init\<close> stays open.
\<close>

theorem main_startup_failure:
  "(ReadInConfig e = Some err \<longrightarrow>
      fst (main e s) = Returned
      \<and> out (snd (main e s)) = out s @
           [Printf (''viper.ReadInConfig failed, error: %v'' @ nl) err,
            Printf (''init settings failed, error: %v'' @ nl) err])
   \<and> (ReadInConfig e = None
        \<and> UnmarshalText e (GetString (config e) ''log.level'') = Inl err \<longrightarrow>
      fst (main e s) = Returned
      \<and> out (snd (main e s)) = out s @ [Printf (''init logger failed, error: %v'' @ nl) err])
   \<and> (ReadInConfig e = None
        \<and> UnmarshalText e (GetString (config e) ''log.level'') = Inr l
        \<and> sqlx_Connect e ''mysql'' (mysql_dsn (config e)) = Some err \<longrightarrow>
      fst (main e s) = Returned
      \<and> out (snd (main e s)) = out s @
           [ZapLog \<lparr> Lvl = DebugLevel, Message = ''logger initialized successfully'', Fields = [] \<rparr>,
            ZapLog \<lparr> Lvl = ErrorLevel, Message = ''connect DB failed'',
                     Fields = [(''error'', zap_Error err)] \<rparr>,
            Printf (''init mysql failed, error: %v'' @ nl) err,
            ZapSync])
   \<and> (ReadInConfig e = None
        \<and> UnmarshalText e (GetString (config e) ''log.level'') = Inr l
        \<and> sqlx_Connect e ''mysql'' (mysql_dsn (config e)) = None
        \<and> redis_NewClient e (redis_options (config e)) = None
        \<and> redis_Ping e (redis_options (config e)) = Some err \<longrightarrow>
      fst (main e s) = Returned
      \<and> out (snd (main e s)) = out s @
           [ZapLog \<lparr> Lvl = DebugLevel, Message = ''logger initialized successfully'', Fields = [] \<rparr>,
            Printf (''init redis failed, error: %v'' @ nl) err,
            mysql_Close_called,
            ZapSync]
      \<and> map_option db_closed (db (snd (main e s))) = Some True
      \<and> map_option pool_closed (rdb (snd (main e s))) = Some False)"
proof (intro conjI impI)
  assume "ReadInConfig e = Some err"
  from main_settings_failure [OF this, of s]
  show "fst (main e s) = Returned"
    and "out (snd (main e s)) = out s @
           [Printf (''viper.ReadInConfig failed, error: %v'' @ nl) err,
            Printf (''init settings failed, error: %v'' @ nl) err]"
    by simp_all
next
  assume "ReadInConfig e = None \<and> UnmarshalText e (GetString (config e) ''log.level'') = Inl err"
  then have "main e s =
     (Returned,
      s\<lparr>watching := True,
        out := out s @ [Printf (''init logger failed, error: %v'' @ nl) err]\<rparr>)"
    by (intro main_logger_failure) simp_all
  then show "fst (main e s) = Returned"
    and "out (snd (main e s)) = out s @ [Printf (''init logger failed, error: %v'' @ nl) err]"
    by simp_all
next
  assume a: "ReadInConfig e = None
        \<and> UnmarshalText e (GetString (config e) ''log.level'') = Inr l
        \<and> sqlx_Connect e ''mysql'' (mysql_dsn (config e)) = Some err"
  from a main_mysql_failure [of e l err s]
  show "fst (main e s) = Returned"
    and "out (snd (main e s)) = out s @
           [ZapLog \<lparr> Lvl = DebugLevel, Message = ''logger initialized successfully'', Fields = [] \<rparr>,
            ZapLog \<lparr> Lvl = ErrorLevel, Message = ''connect DB failed'',
                     Fields = [(''error'', zap_Error err)] \<rparr>,
            Printf (''init mysql failed, error: %v'' @ nl) err,
            ZapSync]"
    by simp_all
next
  assume a: "ReadInConfig e = None
        \<and> UnmarshalText e (GetString (config e) ''log.level'') = Inr l
        \<and> sqlx_Connect e ''mysql'' (mysql_dsn (config e)) = None
        \<and> redis_NewClient e (redis_options (config e)) = None
        \<and> redis_Ping e (redis_options (config e)) = Some err"
  from a main_redis_failure [of e l err s]
  show "fst (main e s) = Returned"
    and "out (snd (main e s)) = out s @
           [ZapLog \<lparr> Lvl = DebugLevel, Message = ''logger initialized successfully'', Fields = [] \<rparr>,
            Printf (''init redis failed, error: %v'' @ nl) err,
            mysql_Close_called,
            ZapSync]"
    and "map_option db_closed (db (snd (main e s))) = Some True"
    and "map_option pool_closed (rdb (snd (main e s))) = Some False"
    by simp_all
qed

theorem main_startup_failure_witness:
  "out (snd (main env_no_config proc0)) =
     [Printf (''viper.ReadInConfig failed, error: %v'' @ nl)
        (OtherErr ''open ./config.yaml: no such file or directory''),
      Printf (''init settings failed, error: %v'' @ nl)
        (OtherErr ''open ./config.yaml: no such file or directory'')]
   \<and> out (snd (main env_bad_level proc0)) =
     [Printf (''init logger failed, error: %v'' @ nl) (UnrecognizedLevel ''verbose'')]
   \<and> out (snd (main env_mysql_down proc0)) =
     [ZapLog \<lparr> Lvl = DebugLevel, Message = ''logger initialized successfully'', Fields = [] \<rparr>,
      ZapLog \<lparr> Lvl = ErrorLevel, Message = ''connect DB failed'',
               Fields = [(''error'', zap_Error (OtherErr ''connection refused''))] \<rparr>,
      Printf (''init mysql failed, error: %v'' @ nl) (OtherErr ''connection refused''),
      ZapSync]
   \<and> out (snd (main env_redis_down proc0)) =
     [ZapLog \<lparr> Lvl = DebugLevel, Message = ''logger initialized successfully'', Fields = [] \<rparr>,
      Printf (''init redis failed, error: %v'' @ nl) (OtherErr ''connection refused''),
      mysql_Close_called,
      ZapSync]"
  using
    main_startup_failure [of env_no_config
      "OtherErr ''open ./config.yaml: no such file or directory''" proc0]
    main_startup_failure [of env_bad_level "UnrecognizedLevel ''verbose''" proc0]
    main_startup_failure [of env_mysql_down "OtherErr ''connection refused''" proc0 DebugLevel]
    main_startup_failure [of env_redis_down "OtherErr ''connection refused''" proc0 DebugLevel]
    env_no_config_facts env_bad_level_facts env_mysql_down_facts env_redis_down_facts
  by (simp add: proc0_def)

text \<open>
  C2 as it is written fails: when \<open>redis.Init\<close> fails, \<open>main\<close> returns through
  the deferred \<open>mysql.Close\<close>, so the database, initialized before the failing
  step, is closed by this path.
\<close>

theorem redis_failure_closes_mysql_counterexample:
  "redis_Ping env_redis_down (redis_options (config env_redis_down))
     = Some (OtherErr ''connection refused'')
   \<and> fst (main env_redis_down proc0) = Returned
   \<and> mysql_Close_called \<in> set (out (snd (main env_redis_down proc0)))
   \<and> map_option db_closed (db (snd (main env_redis_down proc0))) = Some True"
  unfolding main_redis_failure [OF env_redis_down_facts]
  by (simp add: env_redis_down_facts(5))

subsection \<open>Shutdown\<close>

lemma env_ok_facts:
  "ReadInConfig env_ok = None"
  "UnmarshalText env_ok (GetString (config env_ok) ''log.level'') = Inr DebugLevel"
  "sqlx_Connect env_ok ''mysql'' (mysql_dsn (config env_ok)) = None"
  "redis_NewClient env_ok (redis_options (config env_ok)) = None"
  "redis_Ping env_ok (redis_options (config env_ok)) = None"
  "listen_error env_ok = None \<or> listen_error env_ok = Some ErrServerClosed"
  "signal env_ok"
  "srv_Shutdown env_ok (5 * Second) = None"
  by (simp_all add: env_ok_def cfg_sample_def sample_levels redis_options_def)

lemma env_slow_drain_facts:
  "ReadInConfig env_slow_drain = None"
  "UnmarshalText env_slow_drain (GetString (config env_slow_drain) ''log.level'') = Inr DebugLevel"
  "sqlx_Connect env_slow_drain ''mysql'' (mysql_dsn (config env_slow_drain)) = None"
  "redis_NewClient env_slow_drain (redis_options (config env_slow_drain)) = None"
  "redis_Ping env_slow_drain (redis_options (config env_slow_drain)) = None"
  "listen_error env_slow_drain = None \<or> listen_error env_slow_drain = Some ErrServerClosed"
  "signal env_slow_drain"
  "srv_Shutdown env_slow_drain (5 * Second) = Some DeadlineExceeded"
  by (simp_all add: env_slow_drain_def env_ok_def cfg_sample_def sample_levels redis_options_def)

lemma main_clean_shutdown_run:
  assumes "ReadInConfig e = None"
    and "UnmarshalText e (GetString (config e) ''log.level'') = Inr l"
    and "sqlx_Connect e ''mysql'' (mysql_dsn (config e)) = None"
    and "redis_NewClient e (redis_options (config e)) = None"
    and "redis_Ping e (redis_options (config e)) = None"
    and "listen_error e = None \<or> listen_error e = Some ErrServerClosed"
    and "signal e"
    and "srv_Shutdown e (5 * Second) = None"
  shows "main e s =
     (Returned,
      s\<lparr>zapL := Logger getEncoder
                  (getLogWriter (GetString (config e) ''log.filename'')
                     (GetInt (config e) ''log.max_size'') (GetInt (config e) ''log.max_backups'')
                     (GetInt (config e) ''log.max_age'')) l True,
        db := Some \<lparr> db_closed = True, db_released = 1,
                       MaxOpenConns = GetInt (config e) ''mysql.max_open_conns'',
                       MaxIdleConns = GetInt (config e) ''mysql.max_idle_conns'' \<rparr>,
        rdb := Some \<lparr> options = redis_options (config e), pool_closed = True, pool_released = 1 \<rparr>,
        watching := True,
        out := out s @
         [ZapLog \<lparr> Lvl = DebugLevel, Message = ''logger initialized successfully'', Fields = [] \<rparr>,
          ListenAndServe ('':'' @ fmt_d (GetInt (config e) ''app.port'')),
          signal_Notify,
          ZapLog \<lparr> Lvl = InfoLevel, Message = ''Shutdown Server ...'', Fields = [] \<rparr>,
          srv_Shutdown_called (5 * Second),
          ZapLog \<lparr> Lvl = InfoLevel, Message = ''Server exiting'', Fields = [] \<rparr>,
          cancel_called, redis_Close_called, mysql_Close_called, ZapSync]\<rparr>)"
  using assms(6) by (auto simp: main_def main_defs assms(1-5,7,8))

lemma main_shutdown_error_run:
  assumes "ReadInConfig e = None"
    and "UnmarshalText e (GetString (config e) ''log.level'') = Inr l"
    and "sqlx_Connect e ''mysql'' (mysql_dsn (config e)) = None"
    and "redis_NewClient e (redis_options (config e)) = None"
    and "redis_Ping e (redis_options (config e)) = None"
    and "listen_error e = None \<or> listen_error e = Some ErrServerClosed"
    and "signal e"
    and "srv_Shutdown e (5 * Second) = Some err"
  shows "main e s =
     (Exited 1,
      s\<lparr>zapL := Logger getEncoder
                  (getLogWriter (GetString (config e) ''log.filename'')
                     (GetInt (config e) ''log.max_size'') (GetInt (config e) ''log.max_backups'')
                     (GetInt (config e) ''log.max_age'')) l True,
        db := Some \<lparr> db_closed = False, db_released = 0,
                       MaxOpenConns = GetInt (config e) ''mysql.max_open_conns'',
                       MaxIdleConns = GetInt (config e) ''mysql.max_idle_conns'' \<rparr>,
        rdb := Some \<lparr> options = redis_options (config e), pool_closed = False, pool_released = 0 \<rparr>,
        watching := True,
        out := out s @
         [ZapLog \<lparr> Lvl = DebugLevel, Message = ''logger initialized successfully'', Fields = [] \<rparr>,
          ListenAndServe ('':'' @ fmt_d (GetInt (config e) ''app.port'')),
          signal_Notify,
          ZapLog \<lparr> Lvl = InfoLevel, Message = ''Shutdown Server ...'', Fields = [] \<rparr>,
          srv_Shutdown_called (5 * Second),
          ZapLog \<lparr> Lvl = FatalLevel, Message = ''Server Shutdown'',
                   Fields = [(''error'', zap_Error err)] \<rparr>]\<rparr>)"
  using assms(6) by (auto simp: main_def main_defs assms(1-5,7,8))

text \<open>
  C7: every initializer succeeds, the listener has not failed, a signal arrives and
  \<open>Shutdown\<close> returns nil within its five seconds. Then \<open>main\<close> returns, and
  its release calls are, in this order, \<open>redis.Close\<close>, \<open>mysql.Close\<close> and the
  flush of the logger: the reverse of the order of acquisition. Both pools are closed
  afterwards.
\<close>

theorem main_clean_shutdown_release_order:
  assumes "ReadInConfig e = None"
    and "UnmarshalText e (GetString (config e) ''log.level'') = Inr l"
    and "sqlx_Connect e ''mysql'' (mysql_dsn (config e)) = None"
    and "redis_NewClient e (redis_options (config e)) = None"
    and "redis_Ping e (redis_options (config e)) = None"
    and "listen_error e = None \<or> listen_error e = Some ErrServerClosed"
    and "signal e"
    and "srv_Shutdown e (5 * Second) = None"
  shows "fst (main e s) = Returned
    \<and> out (snd (main e s)) = out s @
         [ZapLog \<lparr> Lvl = DebugLevel, Message = ''logger initialized successfully'', Fields = [] \<rparr>,
          ListenAndServe ('':'' @ fmt_d (GetInt (config e) ''app.port'')),
          signal_Notify,
          ZapLog \<lparr> Lvl = InfoLevel, Message = ''Shutdown Server ...'', Fields = [] \<rparr>,
          srv_Shutdown_called (5 * Second),
          ZapLog \<lparr> Lvl = InfoLevel, Message = ''Server exiting'', Fields = [] \<rparr>,
          cancel_called, redis_Close_called, mysql_Close_called, ZapSync]
    \<and> filter is_release (out (snd (main e s))) =
         filter is_release (out s) @ [redis_Close_called, mysql_Close_called, ZapSync]
    \<and> map_option pool_closed (rdb (snd (main e s))) = Some True
    \<and> map_option db_closed (db (snd (main e s))) = Some True"
  unfolding main_clean_shutdown_run [OF assms] by simp

theorem main_clean_shutdown_release_order_witness:
  "fst (main env_ok proc0) = Returned
   \<and> out (snd (main env_ok proc0)) =
         [ZapLog \<lparr> Lvl = DebugLevel, Message = ''logger initialized successfully'', Fields = [] \<rparr>,
          ListenAndServe '':8080'',
          signal_Notify,
          ZapLog \<lparr> Lvl = InfoLevel, Message = ''Shutdown Server ...'', Fields = [] \<rparr>,
          srv_Shutdown_called 5000000000,
          ZapLog \<lparr> Lvl = InfoLevel, Message = ''Server exiting'', Fields = [] \<rparr>,
          cancel_called, redis_Close_called, mysql_Close_called, ZapSync]
   \<and> filter is_release (out (snd (main env_ok proc0))) =
         [redis_Close_called, mysql_Close_called, ZapSync]"
proof -
  have port: "GetInt (config env_ok) ''app.port'' = 8080"
    by (simp add: env_ok_def cfg_sample_def)
  from main_clean_shutdown_release_order [OF env_ok_facts, of proc0]
  show ?thesis by (simp add: proc0_def port fmt_d_8080 Second_def)
qed

text \<open>
  C1, as the source has it: every initializer succeeds, the listener has not failed, a
  signal arrives and \<open>Shutdown\<close> returns an error (the deadline of the context has
  passed, or the listener could not be closed). Then \<open>main\<close> hands one fatal-level
  record \<open>Server Shutdown\<close> with that error to the logger and the process exits
  with status 1 out of that call: the record is the last event, \<open>main\<close> does not
  return, \<open>Server exiting\<close> is not logged, and no deferred call runs, so neither
  pool is closed and the logger is not flushed.
\<close>

theorem main_shutdown_error_exits:
  assumes "ReadInConfig e = None"
    and "UnmarshalText e (GetString (config e) ''log.level'') = Inr l"
    and "sqlx_Connect e ''mysql'' (mysql_dsn (config e)) = None"
    and "redis_NewClient e (redis_options (config e)) = None"
    and "redis_Ping e (redis_options (config e)) = None"
    and "listen_error e = None \<or> listen_error e = Some ErrServerClosed"
    and "signal e"
    and "srv_Shutdown e (5 * Second) = Some err"
  shows "fst (main e s) = Exited 1
    \<and> out (snd (main e s)) = out s @
         [ZapLog \<lparr> Lvl = DebugLevel, Message = ''logger initialized successfully'', Fields = [] \<rparr>,
          ListenAndServe ('':'' @ fmt_d (GetInt (config e) ''app.port'')),
          signal_Notify,
          ZapLog \<lparr> Lvl = InfoLevel, Message = ''Shutdown Server ...'', Fields = [] \<rparr>,
          srv_Shutdown_called (5 * Second),
          ZapLog \<lparr> Lvl = FatalLevel, Message = ''Server Shutdown'',
                   Fields = [(''error'', zap_Error err)] \<rparr>]
    \<and> filter is_release (out (snd (main e s))) = filter is_release (out s)
    \<and> map_option pool_closed (rdb (snd (main e s))) = Some False
    \<and> map_option db_closed (db (snd (main e s))) = Some False"
  unfolding main_shutdown_error_run [OF assms] by simp

theorem main_shutdown_error_exits_witness:
  "fst (main env_slow_drain proc0) = Exited 1
   \<and> out (snd (main env_slow_drain proc0)) =
         [ZapLog \<lparr> Lvl = DebugLevel, Message = ''logger initialized successfully'', Fields = [] \<rparr>,
          ListenAndServe '':8080'',
          signal_Notify,
          ZapLog \<lparr> Lvl = InfoLevel, Message = ''Shutdown Server ...'', Fields = [] \<rparr>,
          srv_Shutdown_called 5000000000,
          ZapLog \<lparr> Lvl = FatalLevel, Message = ''Server Shutdown'',
                   Fields = [(''error'', zap_Error DeadlineExceeded)] \<rparr>]"
proof -
  have port: "GetInt (config env_slow_drain) ''app.port'' = 8080"
    by (simp add: env_slow_drain_def env_ok_def cfg_sample_def)
  from main_shutdown_error_exits [OF env_slow_drain_facts, of proc0]
  show ?thesis by (simp add: proc0_def port fmt_d_8080 Second_def)
qed

text \<open>
  C1 as it is written fails: when \<open>Shutdown\<close> returns the deadline error, the
  process exits with status 1 out of \<open>Fatal\<close>, and none of the deferred release
  calls has run: both pools are still open.
\<close>

theorem main_shutdown_timeout_counterexample:
  "srv_Shutdown env_slow_drain (5 * Second) = Some DeadlineExceeded
   \<and> fst (main env_slow_drain proc0) = Exited 1
   \<and> filter is_release (out (snd (main env_slow_drain proc0))) = []
   \<and> map_option pool_closed (rdb (snd (main env_slow_drain proc0))) = Some False
   \<and> map_option db_closed (db (snd (main env_slow_drain proc0))) = Some False"
  unfolding main_shutdown_error_run [OF env_slow_drain_facts]
  by (simp add: env_slow_drain_facts(8) proc0_def)

text \<open>
  The other two ways \<open>main\<close> can end after a successful startup: the listener fails
  and its goroutine exits the process, or no signal ever arrives and \<open>main\<close> stays
  blocked.
\<close>

lemma main_listener_failure:
  assumes "ReadInConfig e = None"
    and "UnmarshalText e (GetString (config e) ''log.level'') = Inr l"
    and "sqlx_Connect e ''mysql'' (mysql_dsn (config e)) = None"
    and "redis_NewClient e (redis_options (config e)) = None"
    and "redis_Ping e (redis_options (config e)) = None"
    and "listen_error e = Some err" and "err \<noteq> ErrServerClosed"
  shows "fst (main e s) = Exited 1
    \<and> last (out (snd (main e s))) = LogFatalf (''listen: %s'' @ nl) err"
  by (simp add: main_def main_defs assms)

lemma main_blocked_without_signal:
  assumes "ReadInConfig e = None"
    and "UnmarshalText e (GetString (config e) ''log.level'') = Inr l"
    and "sqlx_Connect e ''mysql'' (mysql_dsn (config e)) = None"
    and "redis_NewClient e (redis_options (config e)) = None"
    and "redis_Ping e (redis_options (config e)) = None"
    and "listen_error e = None" and "\<not> signal e"
  shows "fst (main e s) = Blocked"
  by (simp add: main_def main_defs assms)

end
